theory Spec2Isabelle
  imports Complex_Main
begin

section \<open>JavaScript values and string primitives\<close>

text \<open>
  The controllers are JavaScript: a request body field is a JSON value or
  \<open>undefined\<close>, a route parameter and a query parameter are strings or
  \<open>undefined\<close>.  A number is modelled by its integer value (the identifiers,
  quantities, page numbers and page sizes of this program are integers);
  \<open>JNaN\<close> is the number \<open>NaN\<close> and \<open>JInfinity b\<close> an infinity, the
  negative one for \<open>b = True\<close>.  Numbers with a fraction, arrays and objects
  are not modelled: like a string they are no value of an integer column.

  A string is a list of characters, and a character of the model is a
  UTF-16 code unit below 256: strings with other code units are no values
  of the model.
\<close>

datatype jsval = JUndefined | JNull | JBool bool | JNum int | JNaN | JInfinity bool | JStr string

text \<open>\<open>!v\<close> is \<open>\<not> truthy v\<close>.\<close>

fun truthy :: "jsval \<Rightarrow> bool" where
  "truthy JUndefined = False"
| "truthy JNull = False"
| "truthy (JBool b) = b"
| "truthy (JNum n) = (n \<noteq> 0)"
| "truthy JNaN = False"
| "truthy (JInfinity b) = True"
| "truthy (JStr s) = (s \<noteq> [])"

text \<open>\<open>v || d\<close>\<close>

definition js_or :: "jsval \<Rightarrow> jsval \<Rightarrow> jsval" where
  "js_or v d = (if truthy v then v else d)"

text \<open>The number of binary digits of a natural number.\<close>

fun bit_len :: "nat \<Rightarrow> nat" where
  "bit_len n = (if n = 0 then 0 else Suc (bit_len (n div 2)))"

declare bit_len.simps [simp del]

text \<open>
  A number is a double: an integer of more than 53 binary digits is
  rounded to 53 of them, to the nearest such value and to the even one of
  two nearest.  Here \<open>e\<close> binary digits are cut off, \<open>q\<close> are the digits
  kept, \<open>r\<close> is what is cut off and \<open>h\<close> the half of the last place kept.
\<close>

definition round_nat :: "nat \<Rightarrow> nat" where
  "round_nat n =
     (if n < 2 ^ 53 then n
      else
        let e = bit_len n - 53;
            q = n div 2 ^ e;
            r = n mod 2 ^ e;
            h = 2 ^ e div 2
        in (if h < r then q + 1 else if r = h \<and> q mod 2 = 1 then q + 1 else q) * 2 ^ e)"

text \<open>
  The Number value of an integer: the rounded integer, or an infinity when
  the rounding reaches \<open>2^1024\<close>.
\<close>

definition js_number :: "int \<Rightarrow> jsval" where
  "js_number i =
     (let m = round_nat (nat \<bar>i\<bar>)
      in if 2 ^ 1024 \<le> m then JInfinity (i < 0)
         else JNum (if i < 0 then - int m else int m))"

text \<open>
  \<open>StrWhiteSpaceChar\<close> below 256: TAB, LF, VT, FF, CR, SP and the no-break
  space U+00A0.  The other white space of JavaScript (U+1680, U+2000 to
  U+200A, U+2028, U+2029, U+202F, U+205F, U+3000, U+FEFF) lies beyond the
  characters of the model.
\<close>

definition is_ws :: "char \<Rightarrow> bool" where
  "is_ws c = (let n = (of_char c :: nat) in (9 \<le> n \<and> n \<le> 13) \<or> n = 32 \<or> n = 160)"

definition is_digit :: "char \<Rightarrow> bool" where
  "is_digit c = (let n = (of_char c :: nat) in 48 \<le> n \<and> n \<le> 57)"

definition digit_val :: "char \<Rightarrow> nat" where
  "digit_val c = of_char c - 48"

definition digits_val :: "string \<Rightarrow> nat" where
  "digits_val ds = foldl (\<lambda>a c. 10 * a + digit_val c) 0 ds"

text \<open>An optional sign in front of a numeric literal: (negative, rest).\<close>

fun sign_of :: "string \<Rightarrow> bool \<times> string" where
  "sign_of [] = (False, [])"
| "sign_of (c # r) =
     (if c = CHR ''-'' then (True, r)
      else if c = CHR ''+'' then (False, r)
      else (False, c # r))"

text \<open>
  \<open>parseInt(s, 10)\<close>: leading white space is skipped, a sign is read, then
  the longest run of decimal digits; with no digit the result is \<open>NaN\<close>,
  otherwise the Number value of the integer the digits spell.
\<close>

definition parseInt :: "string \<Rightarrow> jsval" where
  "parseInt s =
     (let (neg, u) = sign_of (dropWhile is_ws s);
          ds = takeWhile is_digit u
      in if ds = [] then JNaN
         else js_number (if neg then - int (digits_val ds) else int (digits_val ds)))"

text \<open>
  A JavaScript number as \<open>parseFloat\<close> returns it; \<open>Infinity True\<close> is
  the negative infinity.
\<close>

datatype jsnum = NaN | Infinity bool | Finite rat

text \<open>The exponent part \<open>e[+-]digits\<close> of a decimal literal, if there is one.\<close>

definition exponent_of :: "string \<Rightarrow> int" where
  "exponent_of r =
     (case r of
        [] \<Rightarrow> 0
      | c # r' \<Rightarrow>
          if c = CHR ''e'' \<or> c = CHR ''E'' then
            (let (neg, u) = sign_of r'; ds = takeWhile is_digit u
             in if ds = [] then 0
                else if neg then - int (digits_val ds) else int (digits_val ds))
          else 0)"

definition pow10 :: "int \<Rightarrow> rat" where
  "pow10 e = (if 0 \<le> e then 10 ^ nat e else 1 / 10 ^ nat (- e))"

text \<open>
  \<open>parseFloat(s)\<close>: leading white space, a sign, then the longest prefix that
  is a \<open>StrDecimalLiteral\<close> (\<open>Infinity\<close>, or digits with an optional
  fraction and exponent); \<open>NaN\<close> when there is none.  The value is kept
  exact: the rounding to the nearest double is not modelled, which changes
  nothing for integers below \<open>2^53\<close>.
\<close>

definition parseFloat :: "string \<Rightarrow> jsnum" where
  "parseFloat s =
     (let (neg, u) = sign_of (dropWhile is_ws s) in
      if take 8 u = ''Infinity'' then Infinity neg
      else
        let ip = takeWhile is_digit u;
            r1 = dropWhile is_digit u;
            fp = (case r1 of [] \<Rightarrow> [] | c # r \<Rightarrow> if c = CHR ''.'' then takeWhile is_digit r else []);
            r2 = (case r1 of [] \<Rightarrow> [] | c # r \<Rightarrow> if c = CHR ''.'' then dropWhile is_digit r else r1)
        in if ip = [] \<and> fp = [] then NaN
           else
             let m = (of_nat (digits_val ip) + of_nat (digits_val fp) / 10 ^ length fp) * pow10 (exponent_of r2)
             in Finite (if neg then - m else m))"

text \<open>\<open>s.split(sep)\<close> for a one-character separator.\<close>

fun split :: "char \<Rightarrow> string \<Rightarrow> string list" where
  "split sep [] = [[]]"
| "split sep (c # cs) =
     (if c = sep then [] # split sep cs
      else (case split sep cs of
              [] \<Rightarrow> [[c]]
            | w # ws \<Rightarrow> (c # w) # ws))"

text \<open>\<open>xs[1]\<close>: the second element, \<open>undefined\<close> (\<open>None\<close>) when there is none.\<close>

fun second :: "'a list \<Rightarrow> 'a option" where
  "second (x # y # ys) = Some y"
| "second xs = None"

definition trim :: "string \<Rightarrow> string" where
  "trim s = rev (dropWhile is_ws (rev (dropWhile is_ws s)))"

text \<open>
  The capital of a character: of the letters a to z, of the letters U+00E0
  to U+00FE other than the division sign U+00F7, and of the sharp s U+00DF,
  whose capital is \<open>SS\<close>.  The capitals of U+00B5 and U+00FF lie beyond the
  characters of the model; these two are left as they are.
\<close>

definition upper_char :: "char \<Rightarrow> string" where
  "upper_char c =
     (let n = (of_char c :: nat) in
      if (97 \<le> n \<and> n \<le> 122) \<or> (224 \<le> n \<and> n \<le> 254 \<and> n \<noteq> 247) then [char_of (n - 32)]
      else if n = 223 then ''SS''
      else [c])"

definition toUpperCase :: "string \<Rightarrow> string" where
  "toUpperCase s = concat (map upper_char s)"

text \<open>The decimal numeral of a number, as string concatenation prints it.\<close>

fun dec_nat :: "nat \<Rightarrow> string" where
  "dec_nat n =
     (if n < 10 then [char_of (48 + n)]
      else dec_nat (n div 10) @ [char_of (48 + n mod 10)])"

definition dec_int :: "int \<Rightarrow> string" where
  "dec_int i = (if i < 0 then CHR ''-'' # dec_nat (nat (- i)) else dec_nat (nat i))"

text \<open>
  \<open>n + v\<close> for \<open>n\<close> the count of a stored cart line: addition, or
  concatenation with a string.
\<close>

fun js_add :: "int \<Rightarrow> jsval \<Rightarrow> jsval" where
  "js_add n (JNum c) = js_number (n + c)"
| "js_add n JNull = JNum n"
| "js_add n (JBool b) = JNum (n + (if b then 1 else 0))"
| "js_add n (JStr s) = JStr (dec_int n @ s)"
| "js_add n JUndefined = JNaN"
| "js_add n JNaN = JNaN"
| "js_add n (JInfinity b) = JInfinity b"

text \<open>
  \<open>a - b\<close> and \<open>a * b\<close> for numbers \<open>a\<close> and \<open>b\<close>, which is all the
  listing applies them to (the page number and the page size are results of
  \<open>parseInt\<close> or a default).  The last equation of each covers \<open>NaN\<close>;
  for an operand that is no number it is not JavaScript.
\<close>

fun js_sub :: "jsval \<Rightarrow> jsval \<Rightarrow> jsval" where
  "js_sub (JNum a) (JNum b) = js_number (a - b)"
| "js_sub (JInfinity s) (JNum b) = JInfinity s"
| "js_sub (JNum a) (JInfinity t) = JInfinity (\<not> t)"
| "js_sub (JInfinity s) (JInfinity t) = (if s = t then JNaN else JInfinity s)"
| "js_sub a b = JNaN"

fun js_mul :: "jsval \<Rightarrow> jsval \<Rightarrow> jsval" where
  "js_mul (JNum a) (JNum b) = js_number (a * b)"
| "js_mul (JInfinity s) (JNum b) = (if b = 0 then JNaN else JInfinity (s \<noteq> (b < 0)))"
| "js_mul (JNum a) (JInfinity t) = (if a = 0 then JNaN else JInfinity (t \<noteq> (a < 0)))"
| "js_mul (JInfinity s) (JInfinity t) = JInfinity (s \<noteq> t)"
| "js_mul a b = JNaN"

section \<open>The store\<close>

text \<open>
  The tables the controllers reach through the Prisma client.  The schema
  file is not among the sources; the columns are the ones the controllers
  read and write (\<open>createProduct\<close> writes the product columns,
  \<open>addToCart\<close> the cart columns), with the types the sources give
  them: the API annotations declare \<open>id\<close>, \<open>productId\<close>, \<open>itemId\<close>,
  \<open>categoryId\<close> and \<open>discount\<close> as integers and the price as a number,
  \<open>createProduct\<close> converts with \<open>parseInt\<close> to "ensure categoryId is
  an integer" and stores null for a missing \<open>subcategoryId\<close>, and the
  product, brand and category controllers convert an identifier of the
  route with \<open>Number\<close> or \<open>parseInt\<close> before they query.  \<open>Colors\<close>
  and \<open>Size\<close> are lists of enumeration names.  The \<open>productId\<close> of a
  cart line is the \<open>id\<close> of a product: \<open>addToCart\<close> stores
  \<open>product.id\<close> there.
\<close>

record user =
  user_id :: int
  username :: string

record product =
  product_id :: int
  name :: string
  description :: string
  price :: rat
  discount :: int
  images :: "string list"
  categoryId :: int
  subcategoryId :: "int option"
  brandsId :: int
  Colors :: "string list"
  Size :: "string list"

record cart =
  cart_id :: int
  userId :: int
  productId :: int
  count :: int

text \<open>\<open>cart_seq\<close> is the next value of the cart table's generated key.\<close>

record database =
  users :: "user list"
  products :: "product list"
  carts :: "cart list"
  cart_seq :: int

text \<open>
  An integer column is a Prisma \<open>Int\<close> column: it takes the values of a
  32-bit signed integer.
\<close>

definition int32 :: "int \<Rightarrow> bool" where
  "int32 n = (- 2147483648 \<le> n \<and> n \<le> 2147483647)"

section \<open>The Prisma client calls of the cart controllers\<close>

text \<open>
  A client call either returns or throws.  Every argument given for an
  integer column has to be a value of that column: a value that is not a
  number is refused (there is no coercion of a string), and so is a number
  outside the 32-bit range.  The identifiers a controller passes on from a
  row it has read (\<open>user.id\<close>, \<open>product.id\<close>, \<open>cartItem.id\<close>) are
  values of their columns, and the \<open>userid\<close> of a verified token is the
  \<open>id\<close> of a user, which \<open>login\<close> and \<open>register\<close> have put there.
\<close>

datatype prisma_error = PrismaClientValidationError | RecordNotFound

text \<open>\<open>prisma.user.findUnique({ where: { id } })\<close>\<close>

definition user_findUnique :: "user list \<Rightarrow> jsval \<Rightarrow> prisma_error + user option" where
  "user_findUnique us v =
     (case v of
        JNum n \<Rightarrow> Inr (find (\<lambda>u. user_id u = n) us)
      | _ \<Rightarrow> Inl PrismaClientValidationError)"

text \<open>\<open>prisma.product.findUnique({ where: { id } })\<close>\<close>

definition product_findUnique :: "product list \<Rightarrow> jsval \<Rightarrow> prisma_error + product option" where
  "product_findUnique ps v =
     (case v of
        JNum n \<Rightarrow>
          if int32 n then Inr (find (\<lambda>p. product_id p = n) ps)
          else Inl PrismaClientValidationError
      | _ \<Rightarrow> Inl PrismaClientValidationError)"

text \<open>
  \<open>prisma.cart.findFirst({ where: { userId, productId } })\<close>: the first
  line of the table with both columns equal to the arguments.  An
  \<open>undefined\<close> argument is no condition.
\<close>

definition cart_findFirst :: "cart list \<Rightarrow> int \<Rightarrow> jsval \<Rightarrow> prisma_error + cart option" where
  "cart_findFirst cs u v =
     (case v of
        JNum p \<Rightarrow> Inr (find (\<lambda>l. userId l = u \<and> productId l = p) cs)
      | JUndefined \<Rightarrow> Inr (find (\<lambda>l. userId l = u) cs)
      | _ \<Rightarrow> Inl PrismaClientValidationError)"

text \<open>\<open>prisma.cart.update({ where: { id }, data: { count } })\<close>\<close>

definition cart_update :: "cart list \<Rightarrow> int \<Rightarrow> jsval \<Rightarrow> prisma_error + cart list" where
  "cart_update cs i v =
     (case v of
        JNum n \<Rightarrow>
          if int32 n then
            (if list_ex (\<lambda>l. cart_id l = i) cs
             then Inr (map (\<lambda>l. if cart_id l = i then l\<lparr>count := n\<rparr> else l) cs)
             else Inl RecordNotFound)
          else Inl PrismaClientValidationError
      | _ \<Rightarrow> Inl PrismaClientValidationError)"

text \<open>
  \<open>prisma.cart.create({ data: { userId, productId, count } })\<close>: a new
  line with the next generated key.  The table has no uniqueness constraint
  on (userId, productId).
\<close>

definition cart_create :: "database \<Rightarrow> int \<Rightarrow> int \<Rightarrow> jsval \<Rightarrow> prisma_error + database" where
  "cart_create db u p v =
     (case v of
        JNum n \<Rightarrow>
          if int32 n then
            Inr (db\<lparr>carts := carts db @ [\<lparr>cart_id = cart_seq db, userId = u, productId = p, count = n\<rparr>],
                    cart_seq := cart_seq db + 1\<rparr>)
          else Inl PrismaClientValidationError
      | _ \<Rightarrow> Inl PrismaClientValidationError)"

text \<open>\<open>prisma.cart.delete({ where: { id } })\<close>\<close>

definition cart_delete :: "cart list \<Rightarrow> int \<Rightarrow> prisma_error + cart list" where
  "cart_delete cs i =
     (if list_ex (\<lambda>l. cart_id l = i) cs
      then Inr (filter (\<lambda>l. cart_id l \<noteq> i) cs)
      else Inl RecordNotFound)"

section \<open>Requests and responses\<close>

record request =
  headers_authorization :: "string option"
  body_productId :: jsval
  body_count :: jsval
  params_itemId :: "string option"

text \<open>
  The \<open>meta\<close> object of a listing: \<open>totalProducts\<close> is the count the
  store returns, the other three are numbers the controller computes.
\<close>

record meta =
  totalProducts :: int
  totalPages :: jsval
  currentPage :: jsval
  pageSize :: jsval

datatype json =
    ErrorJson string
  | MessageJson string
  | AddedJson string product
  | ListJson "product list" meta

datatype response = Response (status: nat) (json: json)

text \<open>
  \<open>jwt.verify(token, secret)\<close> is a parameter of the model: \<open>verify t\<close> is
  the \<open>userid\<close> of the payload when the token \<open>t\<close> is well formed,
  correctly signed and unexpired, and \<open>None\<close> when the call throws.  A
  token that is \<open>undefined\<close> makes it throw.
\<close>

definition jwt_verify :: "(string \<Rightarrow> int option) \<Rightarrow> string option \<Rightarrow> int option" where
  "jwt_verify verify token = (case token of None \<Rightarrow> None | Some t \<Rightarrow> verify t)"

section \<open>The cart controllers\<close>

text \<open>
  \<open>addToCart\<close> of \<open>controllers/login.js\<close>.  Every throw inside the
  \<open>try\<close> block ends in the \<open>catch\<close>, which answers 500.
\<close>

definition addToCart :: "(string \<Rightarrow> int option) \<Rightarrow> request \<Rightarrow> database \<Rightarrow> response \<times> database" where
  "addToCart verify req db =
     (let productId = body_productId req;
          cnt = (case body_count req of JUndefined \<Rightarrow> JNum 1 | v \<Rightarrow> v);
          failed = (Response 500 (ErrorJson ''Failed to add product to cart''), db)
      in
      if \<not> truthy productId then (Response 400 (ErrorJson ''Product ID is required''), db)
      else
        (case headers_authorization req of
           None \<Rightarrow> (Response 401 (ErrorJson ''Unauthorized: No token provided''), db)
         | Some authHeader \<Rightarrow>
             if authHeader = [] then (Response 401 (ErrorJson ''Unauthorized: No token provided''), db)
             else
               (case jwt_verify verify (second (split CHR '' '' authHeader)) of
                  None \<Rightarrow> failed
                | Some decoded_userid \<Rightarrow>
                    (case user_findUnique (users db) (JNum decoded_userid) of
                       Inl e \<Rightarrow> failed
                     | Inr None \<Rightarrow> (Response 401 (ErrorJson ''Unauthorized: Invalid user''), db)
                     | Inr (Some usr) \<Rightarrow>
                         (case product_findUnique (products db) productId of
                            Inl e \<Rightarrow> failed
                          | Inr None \<Rightarrow> (Response 404 (ErrorJson ''Product not found''), db)
                          | Inr (Some prd) \<Rightarrow>
                              (case cart_findFirst (carts db) (user_id usr) (JNum (product_id prd)) of
                                 Inl e \<Rightarrow> failed
                               | Inr (Some cartItem) \<Rightarrow>
                                   (case cart_update (carts db) (cart_id cartItem) (js_add (count cartItem) cnt) of
                                      Inl e \<Rightarrow> failed
                                    | Inr cs \<Rightarrow>
                                        (Response 200 (AddedJson ''Product added to cart'' prd),
                                         db\<lparr>carts := cs\<rparr>))
                               | Inr None \<Rightarrow>
                                   (case cart_create db (user_id usr) (product_id prd) cnt of
                                      Inl e \<Rightarrow> failed
                                    | Inr db' \<Rightarrow>
                                        (Response 200 (AddedJson ''Product added to cart'' prd), db'))))))))"

text \<open>
  \<open>deleteCart\<close> of \<open>controllers/login.js\<close>.  \<open>itemId\<close> is
  \<open>req.params.itemId\<close>, the parameter of the route
  \<open>/cart/delete/:itemId\<close>: a string, which goes into the \<open>productId\<close>
  condition as it is.
\<close>

definition deleteCart :: "(string \<Rightarrow> int option) \<Rightarrow> request \<Rightarrow> database \<Rightarrow> response \<times> database" where
  "deleteCart verify req db =
     (let failed = (Response 500 (ErrorJson ''Failed to remove item from cart''), db)
      in
      (case params_itemId req of
         None \<Rightarrow> (Response 400 (ErrorJson ''Item ID is required''), db)
       | Some itemId \<Rightarrow>
           if itemId = [] then (Response 400 (ErrorJson ''Item ID is required''), db)
           else
             (case headers_authorization req of
                None \<Rightarrow> (Response 401 (ErrorJson ''Unauthorized: No token provided''), db)
              | Some authHeader \<Rightarrow>
                  if authHeader = [] then (Response 401 (ErrorJson ''Unauthorized: No token provided''), db)
                  else
                    (case jwt_verify verify (second (split CHR '' '' authHeader)) of
                       None \<Rightarrow> failed
                     | Some decoded_userid \<Rightarrow>
                         (case user_findUnique (users db) (JNum decoded_userid) of
                            Inl e \<Rightarrow> failed
                          | Inr None \<Rightarrow> (Response 401 (ErrorJson ''Unauthorized: Invalid user''), db)
                          | Inr (Some usr) \<Rightarrow>
                              (case cart_findFirst (carts db) (user_id usr) (JStr itemId) of
                                 Inl e \<Rightarrow> failed
                               | Inr None \<Rightarrow> (Response 404 (ErrorJson ''Item not found in cart''), db)
                               | Inr (Some cartItem) \<Rightarrow>
                                   (case cart_delete (carts db) (cart_id cartItem) of
                                      Inl e \<Rightarrow> failed
                                    | Inr cs \<Rightarrow>
                                        (Response 200 (MessageJson ''Item removed from cart successfully''),
                                         db\<lparr>carts := cs\<rparr>))))))))"

section \<open>The routes of the cart\<close>

datatype auth_error = Unauthorized

text \<open>
  Modelled from the spec: the middleware \<open>middlewares/auth.middleware.js\<close>,
  which \<open>routes/login.route.js\<close> puts in front of both cart controllers,
  is not among the sources.  Section 4.1 (AuthGate): given a bearer
  credential string it returns a resolved user identifier, or fails with
  Unauthorized when the credential is absent, malformed, or fails
  signature/expiry verification.  The token is read from the header the way
  the controllers read it.
\<close>

definition auth :: "(string \<Rightarrow> int option) \<Rightarrow> string option \<Rightarrow> auth_error + int" where
  "auth verify credential =
     (case credential of
        None \<Rightarrow> Inl Unauthorized
      | Some c \<Rightarrow>
          (case jwt_verify verify (second (split CHR '' '' c)) of
             None \<Rightarrow> Inl Unauthorized
           | Some uid \<Rightarrow> Inr uid))"

text \<open>
  \<open>router.post('/cart/add', auth, addToCart)\<close> of \<open>routes/login.route.js\<close>.
  The answer of the middleware is modelled from the spec as well: Section 7
  maps a missing or invalid credential to 401.
\<close>

definition cart_add_route :: "(string \<Rightarrow> int option) \<Rightarrow> request \<Rightarrow> database \<Rightarrow> response \<times> database" where
  "cart_add_route verify req db =
     (case auth verify (headers_authorization req) of
        Inl e \<Rightarrow> (Response 401 (ErrorJson ''Unauthorized''), db)
      | Inr uid \<Rightarrow> addToCart verify req db)"

text \<open>\<open>router.delete('/cart/delete/:itemId', auth, deleteCart)\<close>\<close>

definition cart_delete_route :: "(string \<Rightarrow> int option) \<Rightarrow> request \<Rightarrow> database \<Rightarrow> response \<times> database" where
  "cart_delete_route verify req db =
     (case auth verify (headers_authorization req) of
        Inl e \<Rightarrow> (Response 401 (ErrorJson ''Unauthorized''), db)
      | Inr uid \<Rightarrow> deleteCart verify req db)"

section \<open>The catalog listing\<close>

text \<open>
  The query string of \<open>GET /products/all\<close>: each parameter is a string, or
  \<open>undefined\<close> (\<open>None\<close>) when the request does not carry it.  A
  parameter given several times (an array) is not modelled.
\<close>

record query =
  q_page :: "string option"
  q_limit :: "string option"
  q_sortBy :: "string option"
  q_sortOrder :: "string option"
  q_categoryId :: "string option"
  q_subcategoryId :: "string option"
  q_brandId :: "string option"
  q_color :: "string option"
  q_size :: "string option"
  q_minPrice :: "string option"
  q_maxPrice :: "string option"
  q_discount :: "string option"

text \<open>\<open>if (x)\<close> for a query parameter: present and not the empty string.\<close>

fun given :: "string option \<Rightarrow> bool" where
  "given None = False"
| "given (Some s) = (s \<noteq> [])"

text \<open>
  The \<open>where\<close> object handed to the client.  A field is \<open>None\<close> when the
  object has no such key.
\<close>

record price_filter =
  gte :: "jsnum option"
  lte :: "jsnum option"

datatype discount_filter = DiscountGt0 | DiscountEq0

record where_input =
  where_categoryId :: "jsval option"
  where_subcategoryId :: "jsval option"
  where_brandsId :: "jsval option"
  where_Colors :: "string list option"
  where_Size :: "string list option"
  where_price :: "price_filter option"
  where_discount :: "discount_filter option"

datatype sort_order = Asc | Desc

record find_args =
  arg_where :: where_input
  arg_orderBy :: "string \<times> sort_order"
  arg_skip :: jsval
  arg_take :: jsval

text \<open>
  \<open>parseInt(x, 10)\<close> and \<open>parseFloat(x)\<close> of a query parameter; of
  \<open>undefined\<close> both are \<open>NaN\<close>.
\<close>

definition parseInt_param :: "string option \<Rightarrow> jsval" where
  "parseInt_param x = (case x of None \<Rightarrow> JNaN | Some s \<Rightarrow> parseInt s)"

definition parseFloat_param :: "string option \<Rightarrow> jsnum" where
  "parseFloat_param x = (case x of None \<Rightarrow> NaN | Some s \<Rightarrow> parseFloat s)"

text \<open>\<open>if (x) where.k = parseInt(x, 10)\<close>\<close>

definition int_clause :: "string option \<Rightarrow> jsval option" where
  "int_clause x = (if given x then Some (parseInt_param x) else None)"

text \<open>\<open>if (x) where.k = { hasSome: x.split(',').map(c => c.trim().toUpperCase()) }\<close>\<close>

definition list_clause :: "string option \<Rightarrow> string list option" where
  "list_clause x =
     (case x of
        None \<Rightarrow> None
      | Some s \<Rightarrow> if s = [] then None else Some (map (\<lambda>c. toUpperCase (trim c)) (split CHR '','' s)))"

text \<open>The three branches on \<open>minPrice\<close> and \<open>maxPrice\<close>.\<close>

definition price_clause :: "string option \<Rightarrow> string option \<Rightarrow> price_filter option" where
  "price_clause minPrice maxPrice =
     (if given minPrice \<and> given maxPrice
      then Some \<lparr>gte = Some (parseFloat_param minPrice), lte = Some (parseFloat_param maxPrice)\<rparr>
      else if given minPrice then Some \<lparr>gte = Some (parseFloat_param minPrice), lte = None\<rparr>
      else if given maxPrice then Some \<lparr>gte = None, lte = Some (parseFloat_param maxPrice)\<rparr>
      else None)"

definition discount_clause :: "string option \<Rightarrow> discount_filter option" where
  "discount_clause x =
     (if x = Some ''true'' then Some DiscountGt0
      else if x = Some ''false'' then Some DiscountEq0
      else None)"

text \<open>The \<open>where\<close> object \<open>getProducts\<close> builds, clause by clause.\<close>

definition build_where :: "query \<Rightarrow> where_input" where
  "build_where q =
     \<lparr>where_categoryId = int_clause (q_categoryId q),
      where_subcategoryId = int_clause (q_subcategoryId q),
      where_brandsId = int_clause (q_brandId q),
      where_Colors = list_clause (q_color q),
      where_Size = list_clause (q_size q),
      where_price = price_clause (q_minPrice q) (q_maxPrice q),
      where_discount = discount_clause (q_discount q)\<rparr>"

text \<open>\<open>parseInt(page, 10) || 1\<close>, with \<open>page = 1\<close> when the parameter is undefined.\<close>

definition pageNumber :: "query \<Rightarrow> jsval" where
  "pageNumber q = (case q_page q of None \<Rightarrow> JNum 1 | Some s \<Rightarrow> js_or (parseInt s) (JNum 1))"

text \<open>\<open>parseInt(limit, 10) || 10\<close>, with \<open>limit = 10\<close> when the parameter is undefined.\<close>

definition pageSize_of :: "query \<Rightarrow> jsval" where
  "pageSize_of q = (case q_limit q of None \<Rightarrow> JNum 10 | Some s \<Rightarrow> js_or (parseInt s) (JNum 10))"

text \<open>\<open>{ [sortBy]: sortOrder === 'asc' ? 'asc' : 'desc' }\<close> with the defaults \<open>'price'\<close> and \<open>'asc'\<close>.\<close>

definition orderBy :: "query \<Rightarrow> string \<times> sort_order" where
  "orderBy q =
     (case q_sortBy q of None \<Rightarrow> ''price'' | Some s \<Rightarrow> s,
      if q_sortOrder q = None \<or> q_sortOrder q = Some ''asc'' then Asc else Desc)"

text \<open>
  The arguments of \<open>prisma.product.findMany\<close>:
  \<open>skip: (pageNumber - 1) * pageSize\<close> and \<open>take: pageSize\<close>.
\<close>

definition findMany_args :: "query \<Rightarrow> find_args" where
  "findMany_args q =
     \<lparr>arg_where = build_where q,
      arg_orderBy = orderBy q,
      arg_skip = js_mul (js_sub (pageNumber q) (JNum 1)) (pageSize_of q),
      arg_take = pageSize_of q\<rparr>"

section \<open>The Prisma client calls of the listing\<close>

text \<open>
  The client sends its arguments as JSON, where \<open>NaN\<close> and the infinities
  are written \<open>null\<close>.  For \<open>categoryId\<close> and \<open>brandsId\<close>, which
  cannot be null, such an argument is refused, as is a number outside the
  32-bit range for each of the three integer columns.  For the nullable
  \<open>subcategoryId\<close> it selects the products without a subcategory.  A
  price bound of this kind is accepted; no price compares with it, so no
  product is selected.  \<open>skip\<close> and \<open>take\<close> have to be numbers that are
  not \<open>NaN\<close> or infinite, and \<open>skip\<close> not negative.  The enumerations
  behind \<open>Colors\<close> and \<open>Size\<close> are not among the sources, so the names
  of a \<open>hasSome\<close> list are not checked.
\<close>

definition int_arg_ok :: "jsval option \<Rightarrow> bool" where
  "int_arg_ok c = (case c of None \<Rightarrow> True | Some (JNum n) \<Rightarrow> int32 n | Some _ \<Rightarrow> False)"

definition opt_arg_ok :: "jsval option \<Rightarrow> bool" where
  "opt_arg_ok c =
     (case c of
        None \<Rightarrow> True
      | Some (JNum n) \<Rightarrow> int32 n
      | Some JNaN \<Rightarrow> True
      | Some (JInfinity b) \<Rightarrow> True
      | Some _ \<Rightarrow> False)"

definition where_ok :: "where_input \<Rightarrow> bool" where
  "where_ok w =
     (int_arg_ok (where_categoryId w) \<and> opt_arg_ok (where_subcategoryId w) \<and>
      int_arg_ok (where_brandsId w))"

text \<open>One condition on an integer column, on a nullable one, on a list column, on the price.\<close>

definition int_matches :: "jsval option \<Rightarrow> int \<Rightarrow> bool" where
  "int_matches c x = (case c of None \<Rightarrow> True | Some (JNum n) \<Rightarrow> x = n | Some _ \<Rightarrow> False)"

definition opt_matches :: "jsval option \<Rightarrow> int option \<Rightarrow> bool" where
  "opt_matches c x =
     (case c of
        None \<Rightarrow> True
      | Some (JNum n) \<Rightarrow> x = Some n
      | Some JNaN \<Rightarrow> x = None
      | Some (JInfinity b) \<Rightarrow> x = None
      | Some _ \<Rightarrow> False)"

definition hasSome :: "string list option \<Rightarrow> string list \<Rightarrow> bool" where
  "hasSome c xs = (case c of None \<Rightarrow> True | Some ys \<Rightarrow> list_ex (\<lambda>y. y \<in> set xs) ys)"

definition ge_matches :: "jsnum option \<Rightarrow> rat \<Rightarrow> bool" where
  "ge_matches c x = (case c of None \<Rightarrow> True | Some (Finite r) \<Rightarrow> r \<le> x | Some _ \<Rightarrow> False)"

definition le_matches :: "jsnum option \<Rightarrow> rat \<Rightarrow> bool" where
  "le_matches c x = (case c of None \<Rightarrow> True | Some (Finite r) \<Rightarrow> x \<le> r | Some _ \<Rightarrow> False)"

text \<open>A product satisfies the \<open>where\<close> object: every clause it has holds.\<close>

definition matches :: "where_input \<Rightarrow> product \<Rightarrow> bool" where
  "matches w p =
     (int_matches (where_categoryId w) (categoryId p) \<and>
      opt_matches (where_subcategoryId w) (subcategoryId p) \<and>
      int_matches (where_brandsId w) (brandsId p) \<and>
      hasSome (where_Colors w) (Colors p) \<and>
      hasSome (where_Size w) (Size p) \<and>
      (case where_price w of None \<Rightarrow> True | Some f \<Rightarrow> ge_matches (gte f) (price p) \<and> le_matches (lte f) (price p)) \<and>
      (case where_discount w of None \<Rightarrow> True | Some DiscountGt0 \<Rightarrow> 0 < discount p | Some DiscountEq0 \<Rightarrow> discount p = 0))"

text \<open>The order of strings (by character code) and of a nullable column (null first).\<close>

fun string_le :: "string \<Rightarrow> string \<Rightarrow> bool" where
  "string_le [] ys = True"
| "string_le (x # xs) [] = False"
| "string_le (x # xs) (y # ys) =
     (if (of_char x :: nat) < of_char y then True
      else if (of_char y :: nat) < of_char x then False
      else string_le xs ys)"

fun null_le :: "int option \<Rightarrow> int option \<Rightarrow> bool" where
  "null_le None b = True"
| "null_le (Some x) None = False"
| "null_le (Some x) (Some y) = (x \<le> y)"

text \<open>
  The scalar columns of a product, each with its order; \<open>None\<close> for a name
  that is no such column, which the client refuses.
\<close>

definition column_le :: "string \<Rightarrow> (product \<Rightarrow> product \<Rightarrow> bool) option" where
  "column_le c =
     (if c = ''id'' then Some (\<lambda>a b. product_id a \<le> product_id b)
      else if c = ''name'' then Some (\<lambda>a b. string_le (name a) (name b))
      else if c = ''description'' then Some (\<lambda>a b. string_le (description a) (description b))
      else if c = ''price'' then Some (\<lambda>a b. price a \<le> price b)
      else if c = ''discount'' then Some (\<lambda>a b. discount a \<le> discount b)
      else if c = ''categoryId'' then Some (\<lambda>a b. categoryId a \<le> categoryId b)
      else if c = ''subcategoryId'' then Some (\<lambda>a b. null_le (subcategoryId a) (subcategoryId b))
      else if c = ''brandsId'' then Some (\<lambda>a b. brandsId a \<le> brandsId b)
      else None)"

text \<open>
  Sorting by insertion.  Rows with equal keys keep the order of the table:
  the store leaves their order open, the model fixes it.
\<close>

fun insert_by :: "('a \<Rightarrow> 'a \<Rightarrow> bool) \<Rightarrow> 'a \<Rightarrow> 'a list \<Rightarrow> 'a list" where
  "insert_by le x [] = [x]"
| "insert_by le x (y # ys) = (if le x y then x # y # ys else y # insert_by le x ys)"

definition sort_by :: "('a \<Rightarrow> 'a \<Rightarrow> bool) \<Rightarrow> 'a list \<Rightarrow> 'a list" where
  "sort_by le xs = foldr (insert_by le) xs []"

definition ordered :: "(product \<Rightarrow> product \<Rightarrow> bool) \<Rightarrow> sort_order \<Rightarrow> product list \<Rightarrow> product list" where
  "ordered le dir ps = (case dir of Asc \<Rightarrow> sort_by le ps | Desc \<Rightarrow> sort_by (\<lambda>a b. le b a) ps)"

text \<open>
  The page window: \<open>skip\<close> rows are passed over and \<open>take\<close> rows returned; a
  negative \<open>take\<close> counts from the end of the ordered rows.
\<close>

definition page_window :: "int \<Rightarrow> int \<Rightarrow> 'a list \<Rightarrow> 'a list" where
  "page_window sk tk rows =
     (if 0 \<le> tk then take (nat tk) (drop (nat sk) rows)
      else rev (take (nat (- tk)) (drop (nat sk) (rev rows))))"

text \<open>
  \<open>prisma.product.findMany({ where, orderBy, skip, take, include })\<close>.
  The rows joined in by \<open>include\<close> are not modelled.
\<close>

definition product_findMany :: "product list \<Rightarrow> find_args \<Rightarrow> prisma_error + product list" where
  "product_findMany ps a =
     (case arg_skip a of
        JNum sk \<Rightarrow>
          (case arg_take a of
             JNum tk \<Rightarrow>
               if where_ok (arg_where a) \<and> 0 \<le> sk then
                 (case column_le (fst (arg_orderBy a)) of
                    None \<Rightarrow> Inl PrismaClientValidationError
                  | Some le \<Rightarrow>
                      Inr (page_window sk tk
                             (ordered le (snd (arg_orderBy a)) (filter (matches (arg_where a)) ps))))
               else Inl PrismaClientValidationError
           | _ \<Rightarrow> Inl PrismaClientValidationError)
      | _ \<Rightarrow> Inl PrismaClientValidationError)"

text \<open>\<open>prisma.product.count({ where })\<close>\<close>

definition product_count :: "product list \<Rightarrow> where_input \<Rightarrow> prisma_error + int" where
  "product_count ps w =
     (if where_ok w then Inr (int (length (filter (matches w) ps)))
      else Inl PrismaClientValidationError)"

section \<open>The listing controller\<close>

text \<open>
  \<open>Math.ceil(totalProducts / pageSize)\<close> for the count of the store and the
  number \<open>pageSize\<close>.  The quotient by a page size other than 0 is
  rounded to a double that lies on the same side of every integer as the
  exact quotient (the count is below \<open>2^53\<close>), so the ceiling is the
  exact one; the quotient by an infinity is 0, and the one by 0 an infinity
  or, for the count 0, \<open>NaN\<close>.
\<close>

definition ceil_quotient :: "int \<Rightarrow> jsval \<Rightarrow> jsval" where
  "ceil_quotient n ps =
     (case ps of
        JNum k \<Rightarrow>
          if k = 0 then (if n = 0 then JNaN else JInfinity (n < 0))
          else JNum \<lceil>rat_of_int n / rat_of_int k\<rceil>
      | JInfinity b \<Rightarrow> JNum 0
      | _ \<Rightarrow> JNaN)"

definition page_meta :: "int \<Rightarrow> jsval \<Rightarrow> jsval \<Rightarrow> meta" where
  "page_meta n pn ps =
     \<lparr>totalProducts = n,
      totalPages = ceil_quotient n ps,
      currentPage = pn,
      pageSize = ps\<rparr>"

text \<open>\<open>getProducts\<close> of the products controller.\<close>

definition getProducts :: "query \<Rightarrow> product list \<Rightarrow> response" where
  "getProducts q catalog =
     (case product_findMany catalog (findMany_args q) of
        Inl e \<Rightarrow> Response 500 (ErrorJson ''Failed to fetch products'')
      | Inr ps \<Rightarrow>
          (case product_count catalog (build_where q) of
             Inl e \<Rightarrow> Response 500 (ErrorJson ''Failed to fetch products'')
           | Inr n \<Rightarrow>
               Response 200 (ListJson ps (page_meta n (pageNumber q) (pageSize_of q)))))"

section \<open>Notions of the properties\<close>

text \<open>
  The user identifier a cart controller reads from the request: the
  \<open>userid\<close> of the verified token of the \<open>authorization\<close> header.
\<close>

definition resolved_user :: "(string \<Rightarrow> int option) \<Rightarrow> request \<Rightarrow> int option" where
  "resolved_user verify req =
     (case headers_authorization req of
        None \<Rightarrow> None
      | Some h \<Rightarrow> if h = [] then None else jwt_verify verify (second (split CHR '' '' h)))"

text \<open>The cart lines of one (user, product) pair, in table order.\<close>

definition lines_of :: "int \<Rightarrow> int \<Rightarrow> cart list \<Rightarrow> cart list" where
  "lines_of u p cs = filter (\<lambda>l. userId l = u \<and> productId l = p) cs"

text \<open>At most one cart line per (user, product) pair.\<close>

definition unique_lines :: "cart list \<Rightarrow> bool" where
  "unique_lines cs = distinct (map (\<lambda>l. (userId l, productId l)) cs)"

text \<open>The quantity a pair has in the cart: that of its first line, 0 without one.\<close>

definition quantity_of :: "int \<Rightarrow> int \<Rightarrow> cart list \<Rightarrow> int" where
  "quantity_of u p cs =
     (case find (\<lambda>l. userId l = u \<and> productId l = p) cs of None \<Rightarrow> 0 | Some l \<Rightarrow> count l)"

text \<open>Sequential cart-add calls, each on the store the call before it left.\<close>

fun add_all :: "(string \<Rightarrow> int option) \<Rightarrow> request list \<Rightarrow> database \<Rightarrow> database" where
  "add_all verify [] db = db"
| "add_all verify (r # rs) db = add_all verify rs (snd (addToCart verify r db))"


text \<open>A product of category 2 priced within [10, 50], and the order by price.\<close>

definition in_sample :: "product \<Rightarrow> bool" where
  "in_sample p = (categoryId p = 2 \<and> 10 \<le> price p \<and> price p \<le> 50)"

definition by_price :: "product \<Rightarrow> product \<Rightarrow> bool" where
  "by_price a b = (price a \<le> price b)"

text \<open>
  A value reads as a number: after leading white space and one optional
  sign it goes on with a decimal digit.  The number read is the integer
  that the digits up to the first other character spell, with the sign.
\<close>

definition starts_with_number :: "string \<Rightarrow> bool" where
  "starts_with_number s =
     (case snd (sign_of (dropWhile is_ws s)) of [] \<Rightarrow> False | c # r \<Rightarrow> is_digit c)"

definition leading_int :: "string \<Rightarrow> int" where
  "leading_int s =
     (let v = int (digits_val (takeWhile is_digit (snd (sign_of (dropWhile is_ws s)))))
      in if fst (sign_of (dropWhile is_ws s)) then - v else v)"

section \<open>Example data\<close>

text \<open>Two tokens verify: one of the stored user 1, one of a user 99 that is not stored.\<close>

definition tokens :: "string \<Rightarrow> int option" where
  "tokens t = (if t = ''tok1'' then Some 1 else if t = ''tok99'' then Some 99 else None)"

definition item :: "int \<Rightarrow> int \<Rightarrow> rat \<Rightarrow> product" where
  "item i c pr =
     \<lparr>product_id = i, name = ''item'', description = ''an item'', price = pr, discount = 0,
      images = [], categoryId = c, subcategoryId = None, brandsId = 1, Colors = [''RED''], Size = [''M'']\<rparr>"

definition shop :: database where
  "shop =
     \<lparr>users = [\<lparr>user_id = 1, username = ''ann''\<rparr>, \<lparr>user_id = 2, username = ''bob''\<rparr>],
      products = [item 7 2 20, item 8 2 35],
      carts = [\<lparr>cart_id = 1, userId = 2, productId = 7, count = 4\<rparr>,
               \<lparr>cart_id = 2, userId = 1, productId = 8, count = 1\<rparr>],
      cart_seq = 3\<rparr>"

text \<open>A cart-add request of user 1 for a product, with a count.\<close>

definition add_request :: "jsval \<Rightarrow> jsval \<Rightarrow> request" where
  "add_request p c =
     \<lparr>headers_authorization = Some ''Bearer tok1'', body_productId = p, body_count = c,
      params_itemId = None\<rparr>"

text \<open>\<open>DELETE /cart/delete/8\<close> of user 1, who has product 8 in the cart.\<close>

definition delete_request :: request where
  "delete_request =
     \<lparr>headers_authorization = Some ''Bearer tok1'', body_productId = JUndefined,
      body_count = JUndefined, params_itemId = Some ''8''\<rparr>"

definition no_params :: query where
  "no_params =
     \<lparr>q_page = None, q_limit = None, q_sortBy = None, q_sortOrder = None, q_categoryId = None,
      q_subcategoryId = None, q_brandId = None, q_color = None, q_size = None,
      q_minPrice = None, q_maxPrice = None, q_discount = None\<rparr>"

text \<open>\<open>GET /products/all?categoryId=2&minPrice=10&maxPrice=50&page=2&limit=5\<close>\<close>

definition scenario :: query where
  "scenario =
     no_params\<lparr>q_page := Some ''2'', q_limit := Some ''5'', q_categoryId := Some ''2'',
               q_minPrice := Some ''10'', q_maxPrice := Some ''50''\<rparr>"

text \<open>A catalog with twelve products of category 2 priced within [10, 50], and four others.\<close>

definition catalog12 :: "product list" where
  "catalog12 =
     [item 1 2 50, item 2 2 49, item 3 1 20, item 4 2 10, item 5 2 11, item 6 2 51,
      item 7 2 30, item 8 2 29, item 9 2 28, item 10 2 27, item 11 2 26, item 12 2 25,
      item 13 2 24, item 14 3 23, item 15 2 9, item 16 2 22]"


section \<open>Numbers\<close>

lemma js_number_small:
  assumes "\<bar>n\<bar> < 2 ^ 53"
  shows "js_number n = JNum n"
proof -
  have a: "nat \<bar>n\<bar> < 2 ^ 53"
    using assms by simp
  have r: "round_nat (nat \<bar>n\<bar>) = nat \<bar>n\<bar>"
    using a by (simp add: round_nat_def)
  have b: "\<not> (2::nat) ^ 1024 \<le> nat \<bar>n\<bar>"
    using a by simp
  have c: "(if n < 0 then - int (nat \<bar>n\<bar>) else int (nat \<bar>n\<bar>)) = n"
    by simp
  show ?thesis
    unfolding js_number_def r Let_def using b c by simp
qed

lemma js_number_int32: "int32 n \<Longrightarrow> js_number n = JNum n"
  by (rule js_number_small) (auto simp: int32_def)

lemma js_number_sign: "js_number n = JNum m \<Longrightarrow> 0 \<le> n \<Longrightarrow> 0 \<le> m"
  by (auto simp: js_number_def Let_def split: if_splits)

lemma bit_len_pos: "0 < n \<Longrightarrow> 0 < bit_len n"
  by (subst bit_len.simps) simp

lemma bit_len_lower: "0 < n \<Longrightarrow> 2 ^ (bit_len n - 1) \<le> n"
proof (induction n rule: bit_len.induct)
  case (1 n)
  have bl: "bit_len n = Suc (bit_len (n div 2))"
    using "1.prems" by (subst bit_len.simps) simp
  show ?case
  proof (cases "n div 2 = 0")
    case True
    then show ?thesis
      using "1.prems" by (simp add: bl bit_len.simps [of 0])
  next
    case False
    then have "2 ^ (bit_len (n div 2) - 1) \<le> n div 2"
      using "1.IH" "1.prems" by simp
    moreover have "0 < bit_len (n div 2)"
      using False by (simp add: bit_len_pos)
    then have "(2::nat) ^ bit_len (n div 2) = 2 * 2 ^ (bit_len (n div 2) - 1)"
      by (cases "bit_len (n div 2)") simp_all
    ultimately have "(2::nat) ^ bit_len (n div 2) \<le> 2 * (n div 2)"
      by simp
    also have "\<dots> \<le> n" by simp
    finally show ?thesis by (simp add: bl)
  qed
qed

text \<open>Rounding keeps a number of \<open>2^53\<close> or more large.\<close>

lemma round_nat_big:
  assumes "2 ^ 53 \<le> n"
  shows "2 ^ 52 \<le> round_nat n"
proof -
  define e where "e = bit_len n - 53"
  define q where "q = n div 2 ^ e"
  have n0: "0 < n" using assms by (simp add: less_le_trans [of 0 "2 ^ 53"])
  have "(2::nat) ^ 52 * 2 ^ e \<le> n"
  proof (cases "bit_len n \<le> 53")
    case True
    then have "e = 0" by (simp add: e_def)
    then show ?thesis using assms by simp
  next
    case False
    then have "52 + e = bit_len n - 1" by (simp add: e_def)
    moreover have "(2::nat) ^ (52 + e) = 2 ^ 52 * 2 ^ e"
      by (rule power_add)
    ultimately have "(2::nat) ^ 52 * 2 ^ e = 2 ^ (bit_len n - 1)"
      by (simp only:)
    then show ?thesis using bit_len_lower [OF n0] by simp
  qed
  then have q: "2 ^ 52 \<le> q"
    by (simp add: q_def less_eq_div_iff_mult_less_eq)
  have "q \<le> q * 2 ^ e" by simp
  moreover have "q * 2 ^ e \<le> round_nat n"
    using assms by (simp add: round_nat_def Let_def e_def q_def)
  ultimately show ?thesis using q by linarith
qed

lemma js_number_nonzero: "n \<noteq> 0 \<Longrightarrow> truthy (js_number n)"
proof (cases "\<bar>n\<bar> < 2 ^ 53")
  case True
  assume "n \<noteq> 0"
  then show ?thesis using js_number_small [OF True] by simp
next
  case False
  then have "2 ^ 53 \<le> nat \<bar>n\<bar>" by simp
  then have "2 ^ 52 \<le> round_nat (nat \<bar>n\<bar>)" by (rule round_nat_big)
  then show ?thesis
    by (auto simp: js_number_def Let_def)
qed

text \<open>A number outside the 32-bit range is outside it as a double as well.\<close>

lemma js_number_out:
  assumes "\<not> int32 n" "js_number n = JNum m"
  shows "\<not> int32 m"
proof (cases "\<bar>n\<bar> < 2 ^ 53")
  case True
  then show ?thesis using assms js_number_small [OF True] by simp
next
  case False
  then have "2 ^ 53 \<le> nat \<bar>n\<bar>" by simp
  then have "2 ^ 52 \<le> round_nat (nat \<bar>n\<bar>)" by (rule round_nat_big)
  then show ?thesis
    using assms(2) by (auto simp: js_number_def Let_def int32_def split: if_splits)
qed

text \<open>Beyond \<open>2^53\<close> an integer is rounded, a tie to the even neighbour.\<close>

lemma js_number_rounds:
  "js_number 9007199254740993 = JNum 9007199254740992"
  "js_number 9007199254740995 = JNum 9007199254740996"
  "js_number (- 36028797018963971) = JNum (- 36028797018963968)"
  "js_number 100000000000000000000000 = JNum 99999999999999991611392"
  by (simp_all add: js_number_def round_nat_def Let_def bit_len.simps)

section \<open>Parsing\<close>

lemmas parse_simps = parseInt_def parseFloat_def is_ws_def is_digit_def digits_val_def digit_val_def
  exponent_of_def pow10_def js_number_small

text \<open>\<open>parseInt\<close> in terms of what the value reads as.\<close>

lemma parseInt_reads:
  "parseInt s = (if starts_with_number s then js_number (leading_int s) else JNaN)"
  by (cases "snd (sign_of (dropWhile is_ws s))")
    (auto simp: parseInt_def starts_with_number_def leading_int_def split_beta Let_def)

text \<open>The no-break space is skipped like a blank; digits after other characters are not read.\<close>

lemma parseInt_examples:
  "parseInt [CHR 0xA0, CHR ''7''] = JNum 7"
  "parseInt ''abc1'' = JNaN"
  "parseInt ''$10'' = JNaN"
  "parseInt ''12abc'' = JNum 12"
  "parseInt ''9007199254740993'' = JNum 9007199254740992"
  by (simp_all add: parseInt_def is_ws_def is_digit_def digits_val_def digit_val_def
      js_number_def round_nat_def Let_def bit_len.simps)

section \<open>Pagination parameters\<close>

lemma pageNumber_reads:
  "pageNumber q =
     (case q_page q of
        None \<Rightarrow> JNum 1
      | Some s \<Rightarrow>
          if starts_with_number s \<and> leading_int s \<noteq> 0 then js_number (leading_int s) else JNum 1)"
proof (cases "q_page q")
  case None
  then show ?thesis by (simp add: pageNumber_def)
next
  case (Some s)
  show ?thesis
  proof (cases "leading_int s = 0")
    case True
    then show ?thesis
      by (simp add: pageNumber_def Some parseInt_reads js_or_def js_number_small)
  next
    case False
    then show ?thesis
      by (simp add: pageNumber_def Some parseInt_reads js_or_def js_number_nonzero)
  qed
qed

lemma pageSize_reads:
  "pageSize_of q =
     (case q_limit q of
        None \<Rightarrow> JNum 10
      | Some s \<Rightarrow>
          if starts_with_number s \<and> leading_int s \<noteq> 0 then js_number (leading_int s) else JNum 10)"
proof (cases "q_limit q")
  case None
  then show ?thesis by (simp add: pageSize_of_def)
next
  case (Some s)
  show ?thesis
  proof (cases "leading_int s = 0")
    case True
    then show ?thesis
      by (simp add: pageSize_of_def Some parseInt_reads js_or_def js_number_small)
  next
    case False
    then show ?thesis
      by (simp add: pageSize_of_def Some parseInt_reads js_or_def js_number_nonzero)
  qed
qed

text \<open>A page that falls back to 1 is answered like no page at all; the same for the limit.\<close>

lemma getProducts_page_fallback:
  assumes "pageNumber q = JNum 1"
  shows "getProducts q c = getProducts (q\<lparr>q_page := None\<rparr>) c"
proof -
  have pn: "pageNumber (q\<lparr>q_page := None\<rparr>) = pageNumber q"
    using assms by (simp add: pageNumber_def)
  have ps: "pageSize_of (q\<lparr>q_page := None\<rparr>) = pageSize_of q"
    by (simp add: pageSize_of_def)
  have w: "build_where (q\<lparr>q_page := None\<rparr>) = build_where q"
    by (simp add: build_where_def)
  have o: "orderBy (q\<lparr>q_page := None\<rparr>) = orderBy q"
    by (simp add: orderBy_def)
  show ?thesis
    unfolding getProducts_def findMany_args_def pn ps w o by (rule refl)
qed

lemma getProducts_limit_fallback:
  assumes "pageSize_of q = JNum 10"
  shows "getProducts q c = getProducts (q\<lparr>q_limit := None\<rparr>) c"
proof -
  have ps: "pageSize_of (q\<lparr>q_limit := None\<rparr>) = pageSize_of q"
    using assms by (simp add: pageSize_of_def)
  have pn: "pageNumber (q\<lparr>q_limit := None\<rparr>) = pageNumber q"
    by (simp add: pageNumber_def)
  have w: "build_where (q\<lparr>q_limit := None\<rparr>) = build_where q"
    by (simp add: build_where_def)
  have o: "orderBy (q\<lparr>q_limit := None\<rparr>) = orderBy q"
    by (simp add: orderBy_def)
  show ?thesis
    unfolding getProducts_def findMany_args_def pn ps w o by (rule refl)
qed

lemma skip_exact:
  assumes "pageNumber q = JNum a" "pageSize_of q = JNum b"
    and "\<bar>a - 1\<bar> < 2 ^ 53" "\<bar>(a - 1) * b\<bar> < 2 ^ 53"
  shows "arg_skip (findMany_args q) = JNum ((a - 1) * b)"
  using assms by (simp add: findMany_args_def js_number_small)

text \<open>
  Claim C6, as the code has it.  \<open>page\<close> and \<open>limit\<close> default to 1 and 10
  when absent.  A value that does not read as a number (after white space
  and an optional sign no digit follows) falls back to the default, and so
  does a value that reads as 0; either request is answered exactly like the
  one without the parameter.  Every other value is taken as the number it
  reads as, whatever follows the digits; this number is the integer read
  itself when it is below \<open>2^53\<close> in absolute value.  It is not clamped: a
  negative one included, it goes into \<open>take = limit\<close> as it is and into
  \<open>skip = (page - 1) * limit\<close>.
\<close>

theorem pagination_defaults:
  "(q_page q = None \<longrightarrow> pageNumber q = JNum 1) \<and>
   (q_limit q = None \<longrightarrow> pageSize_of q = JNum 10) \<and>
   (\<forall>s. q_page q = Some s \<and> \<not> starts_with_number s \<longrightarrow>
         pageNumber q = JNum 1 \<and> getProducts q c = getProducts (q\<lparr>q_page := None\<rparr>) c) \<and>
   (\<forall>s. q_limit q = Some s \<and> \<not> starts_with_number s \<longrightarrow>
         pageSize_of q = JNum 10 \<and> getProducts q c = getProducts (q\<lparr>q_limit := None\<rparr>) c) \<and>
   (\<forall>s. q_page q = Some s \<and> starts_with_number s \<and> leading_int s = 0 \<longrightarrow>
         pageNumber q = JNum 1 \<and> getProducts q c = getProducts (q\<lparr>q_page := None\<rparr>) c) \<and>
   (\<forall>s. q_limit q = Some s \<and> starts_with_number s \<and> leading_int s = 0 \<longrightarrow>
         pageSize_of q = JNum 10 \<and> getProducts q c = getProducts (q\<lparr>q_limit := None\<rparr>) c) \<and>
   (\<forall>s. q_page q = Some s \<and> starts_with_number s \<and> leading_int s \<noteq> 0 \<longrightarrow>
         pageNumber q = js_number (leading_int s)) \<and>
   (\<forall>s. q_limit q = Some s \<and> starts_with_number s \<and> leading_int s \<noteq> 0 \<longrightarrow>
         pageSize_of q = js_number (leading_int s)) \<and>
   (\<forall>n. \<bar>n\<bar> < 2 ^ 53 \<longrightarrow> js_number n = JNum n) \<and>
   arg_take (findMany_args q) = pageSize_of q \<and>
   arg_skip (findMany_args q) = js_mul (js_sub (pageNumber q) (JNum 1)) (pageSize_of q) \<and>
   (\<forall>a b. pageNumber q = JNum a \<and> pageSize_of q = JNum b \<and>
          \<bar>a - 1\<bar> < 2 ^ 53 \<and> \<bar>(a - 1) * b\<bar> < 2 ^ 53 \<longrightarrow>
          arg_skip (findMany_args q) = JNum ((a - 1) * b))"
proof -
  have a: "q_page q = None \<longrightarrow> pageNumber q = JNum 1"
    by (simp add: pageNumber_def)
  have b: "q_limit q = None \<longrightarrow> pageSize_of q = JNum 10"
    by (simp add: pageSize_of_def)
  have c1: "pageNumber q = JNum 1" if "q_page q = Some s" "\<not> starts_with_number s" for s
    using that by (simp add: pageNumber_reads)
  have c2: "pageNumber q = JNum 1" if "q_page q = Some s" "leading_int s = 0" for s
    using that by (simp add: pageNumber_reads)
  have c3: "pageNumber q = js_number (leading_int s)"
    if "q_page q = Some s" "starts_with_number s" "leading_int s \<noteq> 0" for s
    using that by (simp add: pageNumber_reads)
  have d1: "pageSize_of q = JNum 10" if "q_limit q = Some s" "\<not> starts_with_number s" for s
    using that by (simp add: pageSize_reads)
  have d2: "pageSize_of q = JNum 10" if "q_limit q = Some s" "leading_int s = 0" for s
    using that by (simp add: pageSize_reads)
  have d3: "pageSize_of q = js_number (leading_int s)"
    if "q_limit q = Some s" "starts_with_number s" "leading_int s \<noteq> 0" for s
    using that by (simp add: pageSize_reads)
  have e: "arg_take (findMany_args q) = pageSize_of q"
    "arg_skip (findMany_args q) = js_mul (js_sub (pageNumber q) (JNum 1)) (pageSize_of q)"
    by (simp_all add: findMany_args_def)
  from a b c1 c2 c3 d1 d2 d3 e js_number_small skip_exact [of q]
    getProducts_page_fallback [of q c] getProducts_limit_fallback [of q c]
  show ?thesis by blast
qed

text \<open>
  The request without parameters has page 1 and limit 10.  For
  \<open>?page=-3&limit=abc1\<close> the negative page goes through, the limit
  falls back to 10, the client is asked to skip -40 rows, and the answer
  is that of \<open>?page=-3\<close>.
\<close>

theorem pagination_defaults_witness:
  "pageNumber no_params = JNum 1 \<and> pageSize_of no_params = JNum 10 \<and>
   pageNumber (no_params\<lparr>q_page := Some ''-3'', q_limit := Some ''abc1''\<rparr>) = JNum (- 3) \<and>
   pageSize_of (no_params\<lparr>q_page := Some ''-3'', q_limit := Some ''abc1''\<rparr>) = JNum 10 \<and>
   arg_skip (findMany_args (no_params\<lparr>q_page := Some ''-3'', q_limit := Some ''abc1''\<rparr>)) = JNum (- 40) \<and>
   arg_take (findMany_args (no_params\<lparr>q_page := Some ''-3'', q_limit := Some ''abc1''\<rparr>)) = JNum 10 \<and>
   getProducts (no_params\<lparr>q_page := Some ''-3'', q_limit := Some ''abc1''\<rparr>) catalog12 =
     getProducts (no_params\<lparr>q_page := Some ''-3''\<rparr>) catalog12"
proof -
  let ?q = "no_params\<lparr>q_page := Some ''-3'', q_limit := Some ''abc1''\<rparr>"
  note d = pagination_defaults [of no_params catalog12]
  note t = pagination_defaults [of ?q catalog12]
  have a: "q_page no_params = None" "q_limit no_params = None"
    by (simp_all add: no_params_def)
  have p: "q_page ?q = Some ''-3''" "starts_with_number ''-3''" "leading_int ''-3'' = - 3"
    by (simp_all add: starts_with_number_def leading_int_def is_ws_def is_digit_def
        digits_val_def digit_val_def)
  have l: "q_limit ?q = Some ''abc1''" "\<not> starts_with_number ''abc1''"
    by (simp_all add: starts_with_number_def is_ws_def is_digit_def)
  have e: "?q\<lparr>q_limit := None\<rparr> = no_params\<lparr>q_page := Some ''-3''\<rparr>"
    by (simp add: no_params_def)
  have df: "pageNumber no_params = JNum 1" "pageSize_of no_params = JNum 10"
    using d a by simp_all
  have n: "js_number (- 3) = JNum (- 3)"
    using t by simp
  have pn: "pageNumber ?q = JNum (- 3)"
    using t p n by simp
  have ps: "pageSize_of ?q = JNum 10"
    using t l by blast
  have g: "getProducts ?q catalog12 = getProducts (?q\<lparr>q_limit := None\<rparr>) catalog12"
    using t l by blast
  have tk: "arg_take (findMany_args ?q) = JNum 10"
    using t ps by simp
  have sk: "arg_skip (findMany_args ?q) = JNum ((- 3 - 1) * 10)"
    using t pn ps by simp
  show ?thesis
    using df pn ps tk sk g unfolding e by simp
qed

text \<open>
  Claim C6 as stated fails for zero and for a value that goes on after its
  digits: \<open>?page=0\<close> is page 1 to the controller and \<open>?limit=0\<close> asks
  the client for 10 rows, not for 0; \<open>?page=12abc\<close>, which is no number,
  is page 12 and not the default.
\<close>

theorem pagination_zero_counterexample:
  "pageNumber (no_params\<lparr>q_page := Some ''0''\<rparr>) = JNum 1 \<and>
   arg_take (findMany_args (no_params\<lparr>q_limit := Some ''0''\<rparr>)) = JNum 10 \<and>
   pageNumber (no_params\<lparr>q_page := Some ''12abc''\<rparr>) = JNum 12"
  by (simp add: pageNumber_def pageSize_of_def findMany_args_def no_params_def js_or_def
      parse_simps)

section \<open>The filters of the listing\<close>

lemma build_where_scenario:
  "build_where scenario =
     \<lparr>where_categoryId = Some (JNum 2), where_subcategoryId = None, where_brandsId = None,
      where_Colors = None, where_Size = None,
      where_price = Some \<lparr>gte = Some (Finite 10), lte = Some (Finite 50)\<rparr>,
      where_discount = None\<rparr>"
  by (simp add: build_where_def scenario_def no_params_def int_clause_def price_clause_def
      list_clause_def discount_clause_def parseInt_param_def parseFloat_param_def parse_simps)

text \<open>
  A filter is left out exactly when its parameter is absent or the empty
  string; there is no check of what \<open>parseInt\<close> or \<open>parseFloat\<close> returns.
\<close>

lemma clause_omitted:
  "(where_categoryId (build_where q) = None) = (\<not> given (q_categoryId q))"
  "(where_subcategoryId (build_where q) = None) = (\<not> given (q_subcategoryId q))"
  "(where_brandsId (build_where q) = None) = (\<not> given (q_brandId q))"
  "(where_price (build_where q) = None) = (\<not> given (q_minPrice q) \<and> \<not> given (q_maxPrice q))"
  by (simp_all add: build_where_def int_clause_def price_clause_def)

text \<open>A category that does not read as a number stays in the \<open>where\<close> object, as \<open>NaN\<close>.\<close>

lemma category_kept:
  assumes "v \<noteq> []" "\<not> starts_with_number v"
  shows "build_where (q\<lparr>q_categoryId := Some v\<rparr>) = (build_where q)\<lparr>where_categoryId := Some JNaN\<rparr>"
  using assms by (simp add: build_where_def int_clause_def parseInt_param_def parseInt_reads)

text \<open>The client refuses it, whatever the other parameters are, and the listing answers 500.\<close>

lemma category_refused:
  assumes "v \<noteq> []" "\<not> starts_with_number v"
  shows "getProducts (q\<lparr>q_categoryId := Some v\<rparr>) c = Response 500 (ErrorJson ''Failed to fetch products'')"
proof -
  have "\<not> where_ok (build_where (q\<lparr>q_categoryId := Some v\<rparr>))"
    unfolding category_kept [OF assms] by (simp add: where_ok_def int_arg_ok_def)
  then have "product_findMany c (findMany_args (q\<lparr>q_categoryId := Some v\<rparr>)) = Inl PrismaClientValidationError"
    by (simp add: product_findMany_def findMany_args_def split: jsval.splits)
  then show ?thesis
    by (simp add: getProducts_def)
qed

text \<open>
  Claim C2 fails on the code.  For \<open>GET /products/all?categoryId=abc\<close>
  the \<open>where\<close> object has the clause \<open>categoryId: NaN\<close>: the filter is
  not dropped, and the request fails with 500 on every catalog, while the
  request without the parameter is answered 200.
\<close>

theorem listing_non_numeric_category:
  "where_categoryId (build_where (no_params\<lparr>q_categoryId := Some ''abc''\<rparr>)) = Some JNaN \<and>
   getProducts (no_params\<lparr>q_categoryId := Some ''abc''\<rparr>) c =
     Response 500 (ErrorJson ''Failed to fetch products'') \<and>
   status (getProducts no_params c) = 200"
proof -
  have v: "''abc'' \<noteq> []" "\<not> starts_with_number ''abc''"
    by (simp_all add: starts_with_number_def is_ws_def is_digit_def)
  have w: "build_where no_params =
      \<lparr>where_categoryId = None, where_subcategoryId = None, where_brandsId = None,
       where_Colors = None, where_Size = None, where_price = None, where_discount = None\<rparr>"
    by (simp add: build_where_def no_params_def int_clause_def price_clause_def
        list_clause_def discount_clause_def)
  have k: "where_categoryId (build_where (no_params\<lparr>q_categoryId := Some ''abc''\<rparr>)) = Some JNaN"
    unfolding category_kept [OF v] by simp
  have p: "pageNumber no_params = JNum 1" "pageSize_of no_params = JNum 10"
    "orderBy no_params = (''price'', Asc)"
    by (simp_all add: pageNumber_def pageSize_of_def orderBy_def no_params_def)
  have s: "status (getProducts no_params c) = 200"
    by (simp add: getProducts_def product_findMany_def product_count_def findMany_args_def
        w p where_ok_def int_arg_ok_def opt_arg_ok_def column_le_def js_number_small)
  show ?thesis
    using k category_refused [OF v, of no_params c] s by simp
qed

section \<open>Page metadata\<close>

lemma ceiling_rat_div:
  fixes n ps :: int
  shows "\<lceil>rat_of_int n / rat_of_int ps\<rceil> = - (- n div ps)"
  by (rule ceiling_divide_eq_div)

lemma ceiling_real_div:
  fixes n ps :: int
  shows "\<lceil>real_of_int n / real_of_int ps\<rceil> = - (- n div ps)"
  by (rule ceiling_divide_eq_div)

lemma ceil_quotient_div: "k \<noteq> 0 \<Longrightarrow> ceil_quotient n (JNum k) = JNum (- (- n div k))"
  by (simp add: ceil_quotient_def ceiling_rat_div)

text \<open>The ceiling of a quotient is the least number of pages that hold all items.\<close>

lemma ceiling_pages:
  fixes n ps :: int
  assumes "0 < ps"
  shows "ps * (- (- n div ps) - 1) < n" "n \<le> ps * (- (- n div ps))"
proof -
  have "- n < ps * (- n div ps) + ps"
    using assms by (metis mult.commute div_mult_mod_eq pos_mod_bound add_strict_left_mono)
  then show "ps * (- (- n div ps) - 1) < n" by (simp add: algebra_simps)
  have "ps * (- n div ps) \<le> - n"
    using assms by (metis mult.commute div_mult_mod_eq pos_mod_sign le_add_same_cancel1)
  then show "n \<le> ps * (- (- n div ps))" by simp
qed

text \<open>
  A listing whose filters and sort column the client accepts, with a
  \<open>skip\<close> that is a number and not negative and a \<open>take\<close> that is a
  number, is answered 200 with the page window of the selected products and
  the metadata of their count.
\<close>

lemma getProducts_listing:
  assumes w: "where_ok (build_where q)"
    and col: "column_le (fst (orderBy q)) = Some le"
    and sk: "arg_skip (findMany_args q) = JNum sk" "0 \<le> sk"
    and tk: "pageSize_of q = JNum ps"
  shows "getProducts q c =
           Response 200
             (ListJson
                (page_window sk ps (ordered le (snd (orderBy q)) (filter (matches (build_where q)) c)))
                (page_meta (int (length (filter (matches (build_where q)) c))) (pageNumber q) (JNum ps)))"
proof -
  have a: "arg_take (findMany_args q) = JNum ps" "arg_where (findMany_args q) = build_where q"
    "arg_orderBy (findMany_args q) = orderBy q"
    using tk by (simp_all add: findMany_args_def)
  have f: "product_findMany c (findMany_args q) =
      Inr (page_window sk ps (ordered le (snd (orderBy q)) (filter (matches (build_where q)) c)))"
    by (simp add: product_findMany_def a sk w col)
  have n: "product_count c (build_where q) = Inr (int (length (filter (matches (build_where q)) c)))"
    by (simp add: product_count_def w)
  show ?thesis
    by (simp add: getProducts_def f n tk)
qed

text \<open>From the second page on, rows are skipped; on the first, none.\<close>

lemma skip_not_negative:
  assumes "pageNumber q = JNum pn" "1 \<le> pn" "pageSize_of q = JNum ps" "1 \<le> ps"
    and "arg_skip (findMany_args q) = JNum sk"
  shows "0 \<le> sk"
proof (cases "js_number (pn - 1)")
  case (JNum x)
  then have "0 \<le> x"
    using js_number_sign [of "pn - 1" x] assms(2) by simp
  then have "0 \<le> x * ps"
    using assms(4) by simp
  moreover have "js_number (x * ps) = JNum sk"
    using assms(1,3,5) JNum by (simp add: findMany_args_def)
  ultimately show ?thesis
    using js_number_sign by blast
qed (use assms in \<open>auto simp: findMany_args_def split: if_splits\<close>)

text \<open>The metadata of every answered listing is \<open>page_meta\<close> of a count, which is not negative.\<close>

lemma getProducts_meta:
  assumes "getProducts q c = Response st (ListJson rows m)"
  shows "st = 200 \<and> 0 \<le> totalProducts m \<and>
         m = page_meta (totalProducts m) (pageNumber q) (pageSize_of q)"
  using assms
  by (auto simp: getProducts_def product_count_def page_meta_def split: sum.splits if_splits)

text \<open>
  Claim C5, as the code has it.  Let the page size the controller computed
  be at least 1.  The metadata of every listing that is answered has
  \<open>totalPages = ceil(totalProducts / pageSize)\<close>, the least number of
  pages that hold all items and 0 for none, \<open>pageSize\<close> is the page size
  and \<open>currentPage\<close> the page number the controller computed.  That page
  number is the requested page only when the request has one that reads as
  a number other than 0; it is 1 when the page is absent, reads as no
  number or reads as 0.  The page size is the requested limit in the same
  way, and 10 otherwise.  A listing is answered, with 200, at least when
  it has no colour or size filter, the client accepts its other filters
  and its sort column, the page number is at least 1, and the rows to skip
  and to take are numbers of the 32-bit range.
\<close>

theorem listing_page_meta:
  assumes ps: "pageSize_of q = JNum ps" "1 \<le> ps"
  shows "(q_color q = None \<and> q_size q = None \<and> where_ok (build_where q) \<and>
          column_le (fst (orderBy q)) = Some le \<and> pageNumber q = JNum pn \<and> 1 \<le> pn \<and>
          arg_skip (findMany_args q) = JNum sk \<and> int32 sk \<and> int32 ps \<longrightarrow>
          (\<exists>rows m. getProducts q c = Response 200 (ListJson rows m))) \<and>
         (\<forall>st rows m. getProducts q c = Response st (ListJson rows m) \<longrightarrow>
            st = 200 \<and> 0 \<le> totalProducts m \<and>
            totalPages m = JNum \<lceil>real_of_int (totalProducts m) / real_of_int ps\<rceil> \<and>
            ps * (\<lceil>real_of_int (totalProducts m) / real_of_int ps\<rceil> - 1) < totalProducts m \<and>
            totalProducts m \<le> ps * \<lceil>real_of_int (totalProducts m) / real_of_int ps\<rceil> \<and>
            (totalProducts m = 0 \<longrightarrow> totalPages m = JNum 0) \<and>
            pageSize m = JNum ps \<and>
            currentPage m = pageNumber q) \<and>
         pageNumber q =
           (case q_page q of
              None \<Rightarrow> JNum 1
            | Some s \<Rightarrow>
                if starts_with_number s \<and> leading_int s \<noteq> 0 then js_number (leading_int s)
                else JNum 1) \<and>
         JNum ps =
           (case q_limit q of
              None \<Rightarrow> JNum 10
            | Some s \<Rightarrow>
                if starts_with_number s \<and> leading_int s \<noteq> 0 then js_number (leading_int s)
                else JNum 10)"
proof -
  have ps0: "0 < ps" "ps \<noteq> 0"
    using ps(2) by simp_all
  have answered: "\<exists>rows m. getProducts q c = Response 200 (ListJson rows m)"
    if w: "where_ok (build_where q)" and col: "column_le (fst (orderBy q)) = Some le"
      and pn: "pageNumber q = JNum pn" "1 \<le> pn" and sk: "arg_skip (findMany_args q) = JNum sk"
  proof -
    have "0 \<le> sk"
      using skip_not_negative [OF pn ps sk] .
    then show ?thesis
      using getProducts_listing [OF w col sk _ ps(1), of c] by blast
  qed
  have fields: "st = 200 \<and> 0 \<le> totalProducts m \<and>
      totalPages m = JNum \<lceil>real_of_int (totalProducts m) / real_of_int ps\<rceil> \<and>
      ps * (\<lceil>real_of_int (totalProducts m) / real_of_int ps\<rceil> - 1) < totalProducts m \<and>
      totalProducts m \<le> ps * \<lceil>real_of_int (totalProducts m) / real_of_int ps\<rceil> \<and>
      (totalProducts m = 0 \<longrightarrow> totalPages m = JNum 0) \<and>
      pageSize m = JNum ps \<and>
      currentPage m = pageNumber q"
    if g: "getProducts q c = Response st (ListJson rows m)" for st rows m
  proof -
    define n where "n = totalProducts m"
    have st: "st = 200" and n0: "0 \<le> n"
      and m: "m = page_meta n (pageNumber q) (JNum ps)"
      using getProducts_meta [OF g] by (simp_all add: n_def ps(1))
    have r: "\<lceil>real_of_int n / real_of_int ps\<rceil> = - (- n div ps)"
      by (rule ceiling_real_div)
    have t: "totalPages m = JNum (- (- n div ps))"
      by (subst m) (simp add: page_meta_def ceil_quotient_div ps0)
    have tz: "n = 0 \<longrightarrow> totalPages m = JNum 0"
      unfolding t by simp
    have f: "pageSize m = JNum ps" "currentPage m = pageNumber q"
      by (subst m, simp add: page_meta_def)+
    show ?thesis
      unfolding n_def [symmetric] r
      using st n0 t tz f ceiling_pages [OF ps0(1), of n] by simp
  qed
  have rl: "JNum ps =
      (case q_limit q of
         None \<Rightarrow> JNum 10
       | Some s \<Rightarrow>
           if starts_with_number s \<and> leading_int s \<noteq> 0 then js_number (leading_int s)
           else JNum 10)"
    using pageSize_reads [of q] ps(1) by simp
  show ?thesis
    apply (intro conjI impI allI)
    subgoal by (elim conjE) (rule answered)
    subgoal for st rows m using fields [of st rows m] by blast
    subgoal for st rows m using fields [of st rows m] by blast
    subgoal for st rows m using fields [of st rows m] by blast
    subgoal for st rows m using fields [of st rows m] by blast
    subgoal for st rows m using fields [of st rows m] by blast
    subgoal for st rows m using fields [of st rows m] by blast
    subgoal for st rows m using fields [of st rows m] by blast
    subgoal for st rows m using fields [of st rows m] by blast
    subgoal by (rule pageNumber_reads)
    subgoal by (rule rl)
    done
qed

text \<open>
  \<open>GET /products/all?page=2&limit=5\<close> on the 16 products of
  \<open>catalog12\<close>: four pages, of which this is the second.
\<close>

theorem listing_page_meta_witness:
  "\<exists>rows. getProducts (no_params\<lparr>q_page := Some ''2'', q_limit := Some ''5''\<rparr>) catalog12 =
     Response 200
       (ListJson rows \<lparr>totalProducts = 16, totalPages = JNum 4, currentPage = JNum 2, pageSize = JNum 5\<rparr>)"
proof -
  let ?q = "no_params\<lparr>q_page := Some ''2'', q_limit := Some ''5''\<rparr>"
  have bw: "build_where ?q =
      \<lparr>where_categoryId = None, where_subcategoryId = None, where_brandsId = None,
       where_Colors = None, where_Size = None, where_price = None, where_discount = None\<rparr>"
    by (simp add: build_where_def no_params_def int_clause_def price_clause_def
        list_clause_def discount_clause_def)
  have nf: "q_color ?q = None" "q_size ?q = None"
    by (simp_all add: no_params_def)
  have w: "where_ok (build_where ?q)"
    unfolding bw by (simp add: where_ok_def int_arg_ok_def opt_arg_ok_def)
  have col: "column_le (fst (orderBy ?q)) = Some (\<lambda>a b. price a \<le> price b)"
    by (simp add: orderBy_def no_params_def column_le_def)
  have pn: "pageNumber ?q = JNum 2" "(1::int) \<le> 2"
    by (simp_all add: pageNumber_def no_params_def js_or_def parse_simps)
  have ps: "pageSize_of ?q = JNum 5" "(1::int) \<le> 5"
    by (simp_all add: pageSize_of_def no_params_def js_or_def parse_simps)
  have sk: "arg_skip (findMany_args ?q) = JNum 5" "int32 5"
    by (simp_all add: findMany_args_def pn ps js_number_small int32_def)
  have all: "filter (matches (build_where ?q)) catalog12 = catalog12"
    unfolding bw
    by (simp add: matches_def int_matches_def opt_matches_def hasSome_def catalog12_def)
  have l: "int (length catalog12) = 16"
    by (simp add: catalog12_def)
  have c: "\<lceil>real_of_int 16 / real_of_int 5\<rceil> = (4::int)"
    using ceiling_divide_eq_div [of 16 5, where ?'a = real] by simp
  note t = listing_page_meta [OF ps, of "\<lambda>a b. price a \<le> price b" 2 5 catalog12]
  from t nf w col pn sk
  obtain rows m where g: "getProducts ?q catalog12 = Response 200 (ListJson rows m)"
    by blast
  have n: "totalProducts m = 16"
    using g unfolding getProducts_listing [OF w col sk(1) _ ps(1), simplified] all l
    by (auto simp: page_meta_def)
  have "totalPages m = JNum \<lceil>real_of_int (totalProducts m) / real_of_int 5\<rceil> \<and>
        pageSize m = JNum 5 \<and> currentPage m = pageNumber ?q"
    using t g by blast
  then have "m = \<lparr>totalProducts = 16, totalPages = JNum 4, currentPage = JNum 2, pageSize = JNum 5\<rparr>"
    unfolding n pn(1) c using n by (cases m) simp
  then show ?thesis
    using g by blast
qed

text \<open>
  Claim C5 as stated fails for the page 0: \<open>GET /products/all?page=0\<close>
  is answered 200 on \<open>catalog12\<close> with \<open>currentPage\<close> 1, which is not
  the requested page number.
\<close>

theorem listing_page_zero_counterexample:
  "\<exists>rows. getProducts (no_params\<lparr>q_page := Some ''0''\<rparr>) catalog12 =
     Response 200
       (ListJson rows \<lparr>totalProducts = 16, totalPages = JNum 2, currentPage = JNum 1, pageSize = JNum 10\<rparr>)"
proof -
  let ?q = "no_params\<lparr>q_page := Some ''0''\<rparr>"
  have bw: "build_where ?q =
      \<lparr>where_categoryId = None, where_subcategoryId = None, where_brandsId = None,
       where_Colors = None, where_Size = None, where_price = None, where_discount = None\<rparr>"
    by (simp add: build_where_def no_params_def int_clause_def price_clause_def
        list_clause_def discount_clause_def)
  have w: "where_ok (build_where ?q)"
    unfolding bw by (simp add: where_ok_def int_arg_ok_def opt_arg_ok_def)
  have col: "column_le (fst (orderBy ?q)) = Some (\<lambda>a b. price a \<le> price b)"
    by (simp add: orderBy_def no_params_def column_le_def)
  have pn: "pageNumber ?q = JNum 1"
    by (simp add: pageNumber_def no_params_def js_or_def parse_simps)
  have ps: "pageSize_of ?q = JNum 10"
    by (simp add: pageSize_of_def no_params_def)
  have sk: "arg_skip (findMany_args ?q) = JNum 0" "(0::int) \<le> 0"
    by (simp_all add: findMany_args_def pn ps js_number_small)
  have all: "filter (matches (build_where ?q)) catalog12 = catalog12"
    unfolding bw
    by (simp add: matches_def int_matches_def opt_matches_def hasSome_def catalog12_def)
  have m: "page_meta 16 (JNum 1) (JNum 10) =
      \<lparr>totalProducts = 16, totalPages = JNum 2, currentPage = JNum 1, pageSize = JNum 10\<rparr>"
    by (simp add: page_meta_def ceil_quotient_div)
  have l: "int (length catalog12) = 16"
    by (simp add: catalog12_def)
  show ?thesis
    unfolding getProducts_listing [OF w col sk ps] all pn l m by blast
qed

section \<open>The sample listing\<close>

lemma length_insert_by: "length (insert_by le x xs) = Suc (length xs)"
  by (induction xs) auto

lemma set_insert_by: "set (insert_by le x xs) = insert x (set xs)"
  by (induction xs) auto

lemma length_sort_by: "length (sort_by le xs) = length xs"
  by (induction xs) (auto simp: sort_by_def length_insert_by)

lemma set_sort_by: "set (sort_by le xs) = set xs"
  by (induction xs) (auto simp: sort_by_def set_insert_by)

lemma sorted_insert_by:
  assumes tot: "\<And>a b. le a b \<or> le b a" and tr: "\<And>a b c. le a b \<Longrightarrow> le b c \<Longrightarrow> le a c"
  shows "sorted_wrt le xs \<Longrightarrow> sorted_wrt le (insert_by le x xs)"
proof (induction xs)
  case Nil
  then show ?case by simp
next
  case (Cons y ys)
  show ?case
  proof (cases "le x y")
    case True
    then show ?thesis using Cons.prems tr by auto
  next
    case False
    then have "le y x" using tot by blast
    then show ?thesis using Cons False by (auto simp: set_insert_by)
  qed
qed

lemma sorted_sort_by:
  assumes tot: "\<And>a b. le a b \<or> le b a" and tr: "\<And>a b c. le a b \<Longrightarrow> le b c \<Longrightarrow> le a c"
  shows "sorted_wrt le (sort_by le xs)"
proof (induction xs)
  case Nil
  then show ?case by (simp add: sort_by_def)
next
  case (Cons x xs)
  have "sort_by le (x # xs) = insert_by le x (sort_by le xs)"
    by (simp add: sort_by_def)
  then show ?case using sorted_insert_by [of le, OF tot tr] Cons by simp
qed

text \<open>Skipping five rows and taking five gives the rows at the positions 5 to 9.\<close>

lemma window_5_5:
  assumes "10 \<le> length xs"
  shows "take 5 (drop 5 xs) = map (\<lambda>i. xs ! i) [5, 6, 7, 8, 9]"
proof -
  have "drop 5 xs = xs ! 5 # drop 6 xs" "drop 6 xs = xs ! 6 # drop 7 xs"
    "drop 7 xs = xs ! 7 # drop 8 xs" "drop 8 xs = xs ! 8 # drop 9 xs"
    "drop 9 xs = xs ! 9 # drop 10 xs"
    using assms
      Cons_nth_drop_Suc [of 5 xs] Cons_nth_drop_Suc [of 6 xs] Cons_nth_drop_Suc [of 7 xs]
      Cons_nth_drop_Suc [of 8 xs] Cons_nth_drop_Suc [of 9 xs]
    by simp_all
  then have "drop 5 xs = xs ! 5 # xs ! 6 # xs ! 7 # xs ! 8 # xs ! 9 # drop 10 xs"
    by simp
  then show ?thesis
    by simp
qed

lemma sorted_by_price: "sorted_wrt by_price (sort_by by_price xs)"
  by (rule sorted_sort_by) (auto simp: by_price_def)

text \<open>The \<open>where\<close> object of the sample request selects the products of \<open>in_sample\<close>.\<close>

lemma matches_scenario: "matches (build_where scenario) = in_sample"
  by (rule ext)
    (simp add: build_where_scenario matches_def in_sample_def int_matches_def opt_matches_def
      hasSome_def ge_matches_def le_matches_def)

lemma where_ok_scenario: "where_ok (build_where scenario)"
  by (simp add: build_where_scenario where_ok_def int_arg_ok_def opt_arg_ok_def int32_def)

lemma paging_scenario: "pageNumber scenario = JNum 2" "pageSize_of scenario = JNum 5"
  by (simp_all add: pageNumber_def pageSize_of_def scenario_def no_params_def js_or_def parse_simps)

lemma skip_scenario: "arg_skip (findMany_args scenario) = JNum 5"
  by (simp add: findMany_args_def paging_scenario js_number_small)

lemma take_scenario: "arg_take (findMany_args scenario) = JNum 5"
  by (simp add: findMany_args_def paging_scenario)

lemma orderBy_scenario: "orderBy scenario = (''price'', Asc)"
  by (simp add: orderBy_def scenario_def no_params_def)

lemma column_le_price: "column_le ''price'' = Some by_price"
  by (simp add: column_le_def by_price_def fun_eq_iff)

lemma findMany_scenario:
  "product_findMany c (findMany_args scenario) =
     Inr (take 5 (drop 5 (sort_by by_price (filter in_sample c))))"
proof -
  have a: "arg_where (findMany_args scenario) = build_where scenario"
    "arg_orderBy (findMany_args scenario) = orderBy scenario"
    by (simp_all add: findMany_args_def)
  show ?thesis
    by (simp add: product_findMany_def skip_scenario take_scenario a where_ok_scenario
        orderBy_scenario column_le_price matches_scenario ordered_def page_window_def)
qed

lemma count_scenario:
  "product_count c (build_where scenario) = Inr (int (length (filter in_sample c)))"
  by (simp add: product_count_def where_ok_scenario matches_scenario)

text \<open>
  Claim C4.  On a catalog with exactly 12 products of category 2 priced
  within [10, 50], the request
  \<open>GET /products/all?categoryId=2&minPrice=10&maxPrice=50&page=2&limit=5\<close>
  is answered 200 with the 6th to 10th of these products in the order of
  their price (5 rows are skipped, 5 are taken: the rows at the positions
  5 to 9, counted from 0) and the metadata
  \<open>{totalProducts: 12, totalPages: 3, currentPage: 2, pageSize: 5}\<close>; the
  rows and the count come from the same selection.
\<close>

theorem sample_listing:
  assumes "length (filter in_sample c) = 12"
  shows "arg_skip (findMany_args scenario) = JNum 5 \<and> arg_take (findMany_args scenario) = JNum 5 \<and>
         getProducts scenario c =
           Response 200
             (ListJson (take 5 (drop 5 (sort_by by_price (filter in_sample c))))
                \<lparr>totalProducts = 12, totalPages = JNum 3, currentPage = JNum 2, pageSize = JNum 5\<rparr>) \<and>
         take 5 (drop 5 (sort_by by_price (filter in_sample c))) =
           map (\<lambda>i. sort_by by_price (filter in_sample c) ! i) [5, 6, 7, 8, 9] \<and>
         length (sort_by by_price (filter in_sample c)) = 12 \<and>
         set (sort_by by_price (filter in_sample c)) = {p \<in> set c. in_sample p} \<and>
         sorted_wrt by_price (sort_by by_price (filter in_sample c))"
proof -
  have m: "page_meta 12 (JNum 2) (JNum 5) =
      \<lparr>totalProducts = 12, totalPages = JNum 3, currentPage = JNum 2, pageSize = JNum 5\<rparr>"
    by (simp add: page_meta_def ceil_quotient_div)
  have g: "getProducts scenario c =
           Response 200
             (ListJson (take 5 (drop 5 (sort_by by_price (filter in_sample c))))
                \<lparr>totalProducts = 12, totalPages = JNum 3, currentPage = JNum 2, pageSize = JNum 5\<rparr>)"
    by (simp add: getProducts_def findMany_scenario count_scenario assms paging_scenario m)
  have l: "length (sort_by by_price (filter in_sample c)) = 12"
    by (simp add: length_sort_by assms)
  have w: "take 5 (drop 5 (sort_by by_price (filter in_sample c))) =
           map (\<lambda>i. sort_by by_price (filter in_sample c) ! i) [5, 6, 7, 8, 9]"
    using l by (simp add: window_5_5)
  show ?thesis
    using g l w sorted_by_price
    by (simp add: set_sort_by skip_scenario take_scenario)
qed

text \<open>On \<open>catalog12\<close> the second page holds the products priced 26 to 30.\<close>

theorem sample_listing_witness:
  "getProducts scenario catalog12 =
     Response 200
       (ListJson [item 11 2 26, item 10 2 27, item 9 2 28, item 8 2 29, item 7 2 30]
          \<lparr>totalProducts = 12, totalPages = JNum 3, currentPage = JNum 2, pageSize = JNum 5\<rparr>)"
proof -
  have f: "filter in_sample catalog12 =
      [item 1 2 50, item 2 2 49, item 4 2 10, item 5 2 11, item 7 2 30, item 8 2 29,
       item 9 2 28, item 10 2 27, item 11 2 26, item 12 2 25, item 13 2 24, item 16 2 22]"
    by (simp add: catalog12_def in_sample_def item_def)
  have s: "sort_by by_price (filter in_sample catalog12) =
      [item 4 2 10, item 5 2 11, item 16 2 22, item 13 2 24, item 12 2 25, item 11 2 26,
       item 10 2 27, item 9 2 28, item 8 2 29, item 7 2 30, item 2 2 49, item 1 2 50]"
    unfolding f by (simp add: sort_by_def by_price_def item_def)
  have h: "length (filter in_sample catalog12) = 12"
    unfolding f by simp
  from sample_listing [OF h] show ?thesis
    unfolding s by simp
qed

section \<open>Lookups\<close>

lemmas shop_simps = shop_def tokens_def add_request_def item_def resolved_user_def jwt_verify_def

lemma find_by_key:
  "x \<in> f ` set xs \<Longrightarrow> \<exists>y. find (\<lambda>z. f z = x) xs = Some y \<and> f y = x \<and> y \<in> set xs"
  by (induction xs) auto

lemma find_Some_D: "find P xs = Some y \<Longrightarrow> P y \<and> y \<in> set xs"
  by (induction xs) (auto split: if_splits)

lemma find_None_filter: "find P xs = None \<Longrightarrow> filter P xs = []"
  by (induction xs) (auto split: if_splits)

lemma find_filter: "find P xs = (case filter P xs of [] \<Rightarrow> None | x # _ \<Rightarrow> Some x)"
  by (induction xs) auto

lemma quantity_of_lines:
  "quantity_of U P cs = (case lines_of U P cs of [] \<Rightarrow> 0 | l # _ \<Rightarrow> count l)"
  by (simp add: quantity_of_def lines_of_def find_filter split: list.splits)

lemma resolved_userD:
  "resolved_user verify req = Some U \<Longrightarrow>
     \<exists>h. headers_authorization req = Some h \<and> h \<noteq> [] \<and>
         jwt_verify verify (second (split CHR '' '' h)) = Some U"
  by (auto simp: resolved_user_def split: option.splits if_splits)

lemma cart_update_Inr:
  "cart_update cs i v = Inr cs' \<Longrightarrow>
     \<exists>n. v = JNum n \<and> int32 n \<and> cs' = map (\<lambda>l. if cart_id l = i then l\<lparr>count := n\<rparr> else l) cs"
  by (cases v) (auto simp: cart_update_def split: if_splits)

lemma cart_create_Inr:
  "cart_create db u p v = Inr db' \<Longrightarrow>
     \<exists>n. v = JNum n \<and> int32 n \<and>
         db' = db\<lparr>carts := carts db @ [\<lparr>cart_id = cart_seq db, userId = u, productId = p, count = n\<rparr>],
                  cart_seq := cart_seq db + 1\<rparr>"
  by (cases v) (auto simp: cart_create_def split: if_splits)

lemma cart_findFirst_JNum:
  "cart_findFirst cs u (JNum p) = Inr (find (\<lambda>l. userId l = u \<and> productId l = p) cs)"
  by (simp add: cart_findFirst_def)

text \<open>A count outside the 32-bit range is refused by both writes.\<close>

lemma cart_update_refused:
  "\<not> int32 n \<Longrightarrow> cart_update cs i (js_number n) = Inl PrismaClientValidationError"
  using js_number_out [of n]
  by (cases "js_number n") (auto simp: cart_update_def)

lemma cart_create_refused:
  "\<not> int32 n \<Longrightarrow> cart_create db u p (JNum n) = Inl PrismaClientValidationError"
  by (simp add: cart_create_def)

section \<open>One cart line per user and product\<close>

lemma unique_filter_key:
  assumes "distinct (map k xs)" "x \<in> set xs"
  shows "filter (\<lambda>l. k l = k x) xs = [x]"
  using assms
proof (induction xs)
  case Nil
  then show ?case by simp
next
  case (Cons y ys)
  show ?case
  proof (cases "x = y")
    case True
    have "k y \<notin> k ` set ys"
      using Cons.prems(1) by simp
    then have "\<forall>l \<in> set ys. k l \<noteq> k y"
      by (metis imageI)
    then have "filter (\<lambda>l. k l = k y) ys = []"
      by (simp add: filter_empty_conv)
    then show ?thesis using True by simp
  next
    case False
    then have "x \<in> set ys" using Cons.prems by simp
    moreover have "k x \<in> k ` set ys" using calculation by simp
    moreover have "k y \<notin> k ` set ys" using Cons.prems(1) by simp
    ultimately show ?thesis using Cons by auto
  qed
qed

lemma lines_of_unique:
  assumes "unique_lines cs" "find (\<lambda>l. userId l = U \<and> productId l = P) cs = Some ci"
  shows "lines_of U P cs = [ci]"
proof -
  have ci: "ci \<in> set cs" "userId ci = U" "productId ci = P"
    using find_Some_D [OF assms(2)] by auto
  have "filter (\<lambda>l. (userId l, productId l) = (userId ci, productId ci)) cs = [ci]"
    using unique_filter_key [of "\<lambda>l. (userId l, productId l)" cs ci] assms(1) ci(1)
    by (simp add: unique_lines_def)
  then show ?thesis by (simp add: lines_of_def ci)
qed

lemma keys_count_update:
  "map (\<lambda>l. (userId l, productId l)) (map (\<lambda>l. if Q l then l\<lparr>count := n\<rparr> else l) cs) =
   map (\<lambda>l. (userId l, productId l)) cs"
  by (induction cs) auto

lemma lines_of_count_update:
  "lines_of U P (map (\<lambda>l. if Q l then l\<lparr>count := n\<rparr> else l) cs) =
   map (\<lambda>l. if Q l then l\<lparr>count := n\<rparr> else l) (lines_of U P cs)"
  by (induction cs) (auto simp: lines_of_def)

lemma unique_lines_count_update:
  "unique_lines (map (\<lambda>l. if Q l then l\<lparr>count := n\<rparr> else l) cs) = unique_lines cs"
  unfolding unique_lines_def keys_count_update by (rule refl)

lemma unique_lines_new_line:
  assumes "find (\<lambda>l. userId l = u \<and> productId l = p) cs = None" "unique_lines cs"
  shows "unique_lines (cs @ [\<lparr>cart_id = i, userId = u, productId = p, count = n\<rparr>])"
proof -
  have "filter (\<lambda>l. userId l = u \<and> productId l = p) cs = []"
    using find_None_filter [OF assms(1)] .
  then have "(u, p) \<notin> set (map (\<lambda>l. (userId l, productId l)) cs)"
    by (auto simp: filter_empty_conv)
  then show ?thesis
    using assms(2) by (simp add: unique_lines_def)
qed

text \<open>Whatever the request, a call leaves the lines unique.\<close>

lemma addToCart_unique_lines:
  assumes "unique_lines (carts db)"
  shows "unique_lines (carts (snd (addToCart verify req db)))"
  using assms
  by (auto simp: addToCart_def Let_def cart_findFirst_JNum unique_lines_count_update
      unique_lines_new_line
      split: option.splits sum.splits
      dest!: cart_update_Inr cart_create_Inr)

lemma unique_lines_empty: "unique_lines []"
  by (simp add: unique_lines_def)

lemma add_all_unique_lines:
  "unique_lines (carts db) \<Longrightarrow> unique_lines (carts (add_all verify reqs db))"
  by (induction reqs arbitrary: db) (auto simp: addToCart_unique_lines)

text \<open>From an empty cart table, sequential calls never make a second line for a pair.\<close>

lemma add_all_from_empty:
  "carts db = [] \<Longrightarrow> unique_lines (carts (add_all verify reqs db))"
  by (simp add: add_all_unique_lines unique_lines_empty)

text \<open>
  The call of a stored user for a product of the catalog, with a number as
  count, up to the write: the count of the line found is to be raised, or
  a line is to be created.
\<close>

lemma addToCart_write:
  assumes ru: "resolved_user verify req = Some U"
    and us: "U \<in> user_id ` set (users db)"
    and pid: "body_productId req = JNum P" "P \<noteq> 0" "int32 P"
    and pr: "find (\<lambda>p. product_id p = P) (products db) = Some prd"
    and cn: "body_count req = JNum c"
  shows "addToCart verify req db =
      (case find (\<lambda>l. userId l = U \<and> productId l = P) (carts db) of
         Some ci \<Rightarrow>
           (case cart_update (carts db) (cart_id ci) (js_number (count ci + c)) of
              Inl e \<Rightarrow> (Response 500 (ErrorJson ''Failed to add product to cart''), db)
            | Inr cs \<Rightarrow> (Response 200 (AddedJson ''Product added to cart'' prd), db\<lparr>carts := cs\<rparr>))
       | None \<Rightarrow>
           (case cart_create db U P (JNum c) of
              Inl e \<Rightarrow> (Response 500 (ErrorJson ''Failed to add product to cart''), db)
            | Inr db' \<Rightarrow> (Response 200 (AddedJson ''Product added to cart'' prd), db')))"
proof -
  obtain h where h: "headers_authorization req = Some h" "h \<noteq> []"
    "jwt_verify verify (second (split CHR '' '' h)) = Some U"
    using resolved_userD [OF ru] by blast
  obtain usr where usr: "find (\<lambda>u. user_id u = U) (users db) = Some usr" "user_id usr = U"
    using find_by_key [OF us] by blast
  have pp: "product_id prd = P"
    using find_Some_D [OF pr] by simp
  show ?thesis
    by (cases "find (\<lambda>l. userId l = U \<and> productId l = P) (carts db)")
      (simp_all add: addToCart_def h usr pid pr pp cn user_findUnique_def product_findUnique_def
        cart_findFirst_def)
qed

text \<open>With a resulting quantity in the range of the column the write is done.\<close>

lemma addToCart_add:
  assumes ru: "resolved_user verify req = Some U"
    and us: "U \<in> user_id ` set (users db)"
    and pid: "body_productId req = JNum P" "P \<noteq> 0" "int32 P"
    and pr: "find (\<lambda>p. product_id p = P) (products db) = Some prd"
    and cn: "body_count req = JNum c"
    and rg: "int32 (quantity_of U P (carts db) + c)"
  shows "addToCart verify req db =
      (Response 200 (AddedJson ''Product added to cart'' prd),
       case find (\<lambda>l. userId l = U \<and> productId l = P) (carts db) of
         Some ci \<Rightarrow>
           db\<lparr>carts := map (\<lambda>l. if cart_id l = cart_id ci then l\<lparr>count := count ci + c\<rparr> else l) (carts db)\<rparr>
       | None \<Rightarrow>
           db\<lparr>carts := carts db @ [\<lparr>cart_id = cart_seq db, userId = U, productId = P, count = c\<rparr>],
              cart_seq := cart_seq db + 1\<rparr>)"
proof (cases "find (\<lambda>l. userId l = U \<and> productId l = P) (carts db)")
  case None
  have "int32 c"
    using rg by (simp add: quantity_of_def None)
  then show ?thesis
    unfolding addToCart_write [OF ru us pid pr cn] by (simp add: None cart_create_def)
next
  case (Some ci)
  have r: "int32 (count ci + c)"
    using rg by (simp add: quantity_of_def Some)
  have "list_ex (\<lambda>l. cart_id l = cart_id ci) (carts db)"
    using find_Some_D [OF Some] by (auto simp: list_ex_iff)
  then show ?thesis
    unfolding addToCart_write [OF ru us pid pr cn]
    by (simp add: Some cart_update_def js_number_int32 [OF r] r)
qed

text \<open>With a resulting quantity outside that range it is refused, and the store stays as it was.\<close>

lemma addToCart_out_of_range:
  assumes ru: "resolved_user verify req = Some U"
    and us: "U \<in> user_id ` set (users db)"
    and pid: "body_productId req = JNum P" "P \<noteq> 0" "int32 P"
    and pr: "P \<in> product_id ` set (products db)"
    and cn: "body_count req = JNum c"
    and rg: "\<not> int32 (quantity_of U P (carts db) + c)"
  shows "addToCart verify req db = (Response 500 (ErrorJson ''Failed to add product to cart''), db)"
proof -
  obtain prd where prd: "find (\<lambda>p. product_id p = P) (products db) = Some prd"
    using find_by_key [OF pr] by blast
  show ?thesis
  proof (cases "find (\<lambda>l. userId l = U \<and> productId l = P) (carts db)")
    case None
    have "\<not> int32 c"
      using rg by (simp add: quantity_of_def None)
    then show ?thesis
      unfolding addToCart_write [OF ru us pid prd cn] by (simp add: None cart_create_refused)
  next
    case (Some ci)
    have "\<not> int32 (count ci + c)"
      using rg by (simp add: quantity_of_def Some)
    then show ?thesis
      unfolding addToCart_write [OF ru us pid prd cn] by (simp add: Some cart_update_refused)
  qed
qed

lemma addToCart_step:
  assumes inv: "unique_lines (carts db)"
    and ru: "resolved_user verify req = Some U"
    and us: "U \<in> user_id ` set (users db)"
    and pid: "body_productId req = JNum P" "P \<noteq> 0" "int32 P"
    and pr: "P \<in> product_id ` set (products db)"
    and cn: "body_count req = JNum c"
    and rg: "int32 (quantity_of U P (carts db) + c)"
  shows "\<exists>b db' l. addToCart verify req db = (Response 200 b, db') \<and>
           users db' = users db \<and> products db' = products db \<and>
           unique_lines (carts db') \<and>
           lines_of U P (carts db') = [l] \<and> count l = quantity_of U P (carts db) + c \<and>
           length (carts db') =
             (if lines_of U P (carts db) = [] then Suc (length (carts db)) else length (carts db))"
proof -
  obtain prd where prd: "find (\<lambda>p. product_id p = P) (products db) = Some prd"
    using find_by_key [OF pr] by blast
  note step = addToCart_add [OF ru us pid prd cn rg]
  show ?thesis
  proof (cases "find (\<lambda>l. userId l = U \<and> productId l = P) (carts db)")
    case None
    have e: "lines_of U P (carts db) = []"
      using find_None_filter [OF None] by (simp add: lines_of_def)
    then have n: "(U, P) \<notin> set (map (\<lambda>l. (userId l, productId l)) (carts db))"
      by (auto simp: lines_of_def filter_empty_conv)
    show ?thesis
      using step inv e n by (simp add: None unique_lines_def lines_of_def quantity_of_def)
  next
    case (Some ci)
    let ?f = "\<lambda>l. if cart_id l = cart_id ci then l\<lparr>count := count ci + c\<rparr> else l"
    have "lines_of U P (map ?f (carts db)) = map ?f (lines_of U P (carts db))"
      by (rule lines_of_count_update)
    then have l: "lines_of U P (map ?f (carts db)) = [ci\<lparr>count := count ci + c\<rparr>]"
      using lines_of_unique [OF inv Some] by simp
    have u: "unique_lines (map ?f (carts db))"
      using inv by (simp only: unique_lines_count_update)
    have ne: "lines_of U P (carts db) \<noteq> []"
      using lines_of_unique [OF inv Some] by simp
    show ?thesis
      using step l u ne by (simp add: Some quantity_of_def)
  qed
qed

text \<open>
  Claim C1, as the code has it.  A store with at most one cart line per
  (user, product) pair keeps that property through every \<open>addToCart\<close>
  call and every sequence of calls.  Let a stored user \<open>U\<close> add a product
  \<open>P\<close> of the catalog (its identifier is a value of the key column other
  than 0) with count \<open>c1\<close> and then again with count \<open>c2\<close>.  When the
  quantity that results from each call is within the 32-bit range of the
  \<open>count\<close> column, both calls answer 200 and the store then holds exactly
  one line for \<open>(U, P)\<close>, whose quantity is the quantity the pair had
  before plus \<open>c1 + c2\<close>: it is \<open>c1 + c2\<close> when the pair had no line.  A
  line is created by the first call only when the pair had none, and the
  second call creates none.  A call whose resulting quantity is outside
  that range is refused by the store: it answers 500 and leaves the store
  as it was.
\<close>

theorem addToCart_one_line_per_pair:
  assumes inv: "unique_lines (carts db)"
    and ru: "resolved_user verify req = Some U"
    and us: "U \<in> user_id ` set (users db)"
    and pr: "P \<noteq> 0" "int32 P" "P \<in> product_id ` set (products db)"
  shows "unique_lines (carts (snd (addToCart verify' req' db))) \<and>
         unique_lines (carts (add_all verify' reqs db)) \<and>
         (int32 (quantity_of U P (carts db) + c1) \<and> int32 (quantity_of U P (carts db) + c1 + c2) \<longrightarrow>
          (\<exists>b1 db1 b2 db2 l.
            addToCart verify (req\<lparr>body_productId := JNum P, body_count := JNum c1\<rparr>) db = (Response 200 b1, db1) \<and>
            addToCart verify (req\<lparr>body_productId := JNum P, body_count := JNum c2\<rparr>) db1 = (Response 200 b2, db2) \<and>
            unique_lines (carts db1) \<and> unique_lines (carts db2) \<and>
            lines_of U P (carts db2) = [l] \<and>
            count l = quantity_of U P (carts db) + c1 + c2 \<and>
            (lines_of U P (carts db) = [] \<longrightarrow> count l = c1 + c2) \<and>
            length (carts db1) =
              (if lines_of U P (carts db) = [] then Suc (length (carts db)) else length (carts db)) \<and>
            length (carts db2) = length (carts db1))) \<and>
         (\<not> int32 (quantity_of U P (carts db) + c1) \<longrightarrow>
            addToCart verify (req\<lparr>body_productId := JNum P, body_count := JNum c1\<rparr>) db =
              (Response 500 (ErrorJson ''Failed to add product to cart''), db))"
proof -
  let ?r1 = "req\<lparr>body_productId := JNum P, body_count := JNum c1\<rparr>"
  let ?r2 = "req\<lparr>body_productId := JNum P, body_count := JNum c2\<rparr>"
  have ru1: "resolved_user verify ?r1 = Some U" and ru2: "resolved_user verify ?r2 = Some U"
    using ru by (simp_all add: resolved_user_def)
  have two: "\<exists>b1 db1 b2 db2 l.
            addToCart verify ?r1 db = (Response 200 b1, db1) \<and>
            addToCart verify ?r2 db1 = (Response 200 b2, db2) \<and>
            unique_lines (carts db1) \<and> unique_lines (carts db2) \<and>
            lines_of U P (carts db2) = [l] \<and>
            count l = quantity_of U P (carts db) + c1 + c2 \<and>
            (lines_of U P (carts db) = [] \<longrightarrow> count l = c1 + c2) \<and>
            length (carts db1) =
              (if lines_of U P (carts db) = [] then Suc (length (carts db)) else length (carts db)) \<and>
            length (carts db2) = length (carts db1)"
    if rg1: "int32 (quantity_of U P (carts db) + c1)"
      and rg2: "int32 (quantity_of U P (carts db) + c1 + c2)"
  proof -
    obtain b1 db1 l1 where s1: "addToCart verify ?r1 db = (Response 200 b1, db1)"
        "users db1 = users db" "products db1 = products db" "unique_lines (carts db1)"
        "lines_of U P (carts db1) = [l1]" "count l1 = quantity_of U P (carts db) + c1"
        "length (carts db1) =
           (if lines_of U P (carts db) = [] then Suc (length (carts db)) else length (carts db))"
      using addToCart_step [OF inv ru1 us _ pr(1) pr(2) pr(3) _ rg1] by auto
    have us1: "U \<in> user_id ` set (users db1)" and pr1: "P \<in> product_id ` set (products db1)"
      using us pr s1 by simp_all
    have q1: "quantity_of U P (carts db1) = count l1"
      using s1(5) by (simp add: quantity_of_lines)
    have rg2': "int32 (quantity_of U P (carts db1) + c2)"
      using rg2 q1 s1(6) by simp
    obtain b2 db2 l2 where s2: "addToCart verify ?r2 db1 = (Response 200 b2, db2)"
        "unique_lines (carts db2)"
        "lines_of U P (carts db2) = [l2]" "count l2 = quantity_of U P (carts db1) + c2"
        "length (carts db2) =
           (if lines_of U P (carts db1) = [] then Suc (length (carts db1)) else length (carts db1))"
      using addToCart_step [OF s1(4) ru2 us1 _ pr(1) pr(2) pr1 _ rg2'] by auto
    have q0: "lines_of U P (carts db) = [] \<longrightarrow> quantity_of U P (carts db) = 0"
      by (simp add: quantity_of_lines)
    have len2: "length (carts db2) = length (carts db1)"
      using s2(5) s1(5) by simp
    show ?thesis
      using s1 s2 q1 q0 len2 by auto
  qed
  have out: "addToCart verify ?r1 db = (Response 500 (ErrorJson ''Failed to add product to cart''), db)"
    if "\<not> int32 (quantity_of U P (carts db) + c1)"
    using addToCart_out_of_range [OF ru1 us _ pr(1) pr(2) pr(3) _ that] by simp
  show ?thesis
    using addToCart_unique_lines [OF inv] add_all_unique_lines [OF inv] two out by blast
qed

text \<open>
  User 1 of \<open>shop\<close> adds product 7, not yet in the cart, with count 2
  and then 3; and adds 2147483647 of product 8, of which the cart has 1.
\<close>

theorem addToCart_one_line_per_pair_witness:
  "unique_lines (carts shop) \<and> lines_of 1 7 (carts shop) = [] \<and>
   (\<exists>l. lines_of 1 7
           (carts (snd (addToCart tokens (add_request (JNum 7) (JNum 3))
                         (snd (addToCart tokens (add_request (JNum 7) (JNum 2)) shop))))) = [l] \<and>
        count l = 5) \<and>
   addToCart tokens (add_request (JNum 8) (JNum 2147483647)) shop =
     (Response 500 (ErrorJson ''Failed to add product to cart''), shop)"
proof -
  have inv: "unique_lines (carts shop)"
    by (simp add: unique_lines_def shop_def)
  have ru: "resolved_user tokens (add_request JUndefined JUndefined) = Some 1"
    by (simp add: shop_simps)
  have us: "1 \<in> user_id ` set (users shop)"
    by (simp add: shop_def)
  have pr: "(7::int) \<noteq> 0" "int32 7" "7 \<in> product_id ` set (products shop)"
    by (simp_all add: shop_def item_def int32_def)
  have pr8: "(8::int) \<noteq> 0" "int32 8" "8 \<in> product_id ` set (products shop)"
    by (simp_all add: shop_def item_def int32_def)
  have e: "lines_of 1 7 (carts shop) = []"
    by (simp add: lines_of_def shop_def)
  have q: "quantity_of 1 7 (carts shop) = 0" "quantity_of 1 8 (carts shop) = 1"
    by (simp_all add: quantity_of_def shop_def)
  have rg: "int32 (quantity_of 1 7 (carts shop) + 2) \<and> int32 (quantity_of 1 7 (carts shop) + 2 + 3)"
    unfolding q by (simp add: int32_def)
  have rg8: "\<not> int32 (quantity_of 1 8 (carts shop) + 2147483647)"
    unfolding q by (simp add: int32_def)
  have r: "(add_request JUndefined JUndefined)\<lparr>body_productId := JNum p, body_count := JNum c\<rparr> =
           add_request (JNum p) (JNum c)" for p c
    by (simp add: add_request_def)
  from addToCart_one_line_per_pair [OF inv ru us pr, of tokens "add_request JUndefined JUndefined" "[]" 2 3]
  obtain b1 db1 b2 db2 l where
    "addToCart tokens (add_request (JNum 7) (JNum 2)) shop = (Response 200 b1, db1)"
    "addToCart tokens (add_request (JNum 7) (JNum 3)) db1 = (Response 200 b2, db2)"
    "lines_of 1 7 (carts db2) = [l]" "count l = 2 + 3"
    using e rg unfolding r by auto
  then have two: "\<exists>l. lines_of 1 7
           (carts (snd (addToCart tokens (add_request (JNum 7) (JNum 3))
                         (snd (addToCart tokens (add_request (JNum 7) (JNum 2)) shop))))) = [l] \<and>
        count l = 5"
    by simp
  have out: "addToCart tokens (add_request (JNum 8) (JNum 2147483647)) shop =
     (Response 500 (ErrorJson ''Failed to add product to cart''), shop)"
    using addToCart_one_line_per_pair
      [OF inv ru us pr8, of tokens "add_request JUndefined JUndefined" "[]" 2147483647 0] rg8
    unfolding r by blast
  show ?thesis
    using inv e two out by blast
qed

text \<open>
  Claim C1 as stated fails at the end of the range of the \<open>count\<close>
  column.  User 1 of \<open>shop\<close> adds product 7 with count 2147483647 and
  then with count 1: the second call answers 500, and the one line of the
  pair keeps the quantity 2147483647, which is not the sum of the counts.
\<close>

theorem addToCart_quantity_range_counterexample:
  "addToCart tokens (add_request (JNum 7) (JNum 2147483647)) shop =
     (Response 200 (AddedJson ''Product added to cart'' (item 7 2 20)),
      shop\<lparr>carts := carts shop @ [\<lparr>cart_id = 3, userId = 1, productId = 7, count = 2147483647\<rparr>],
           cart_seq := 4\<rparr>) \<and>
   addToCart tokens (add_request (JNum 7) (JNum 1))
     (shop\<lparr>carts := carts shop @ [\<lparr>cart_id = 3, userId = 1, productId = 7, count = 2147483647\<rparr>],
           cart_seq := 4\<rparr>) =
     (Response 500 (ErrorJson ''Failed to add product to cart''),
      shop\<lparr>carts := carts shop @ [\<lparr>cart_id = 3, userId = 1, productId = 7, count = 2147483647\<rparr>],
           cart_seq := 4\<rparr>)"
  by (simp add: addToCart_def shop_simps user_findUnique_def product_findUnique_def
      cart_findFirst_def cart_update_def cart_create_def int32_def js_number_small)

section \<open>The frame of an update\<close>

text \<open>
  Claim C10.  In a store whose cart lines have distinct identifiers, a call
  that answers 200 and finds the line \<open>cartItem\<close> of the pair changes the
  \<open>count\<close> field of that line and nothing else: every other line, the
  fields \<open>cart_id\<close>, \<open>userId\<close> and \<open>productId\<close> of the line itself, the
  users, the products and the key counter stay as they were; the new count
  is the old one plus the count of the request; the product of the response
  is the product of the catalog.
\<close>

theorem addToCart_existing_line_frame:
  assumes pk: "distinct (map cart_id (carts db))"
    and ok: "addToCart verify req db = (Response 200 b, db')"
    and ru: "resolved_user verify req = Some U"
    and pid: "body_productId req = JNum P"
    and ex: "find (\<lambda>l. userId l = U \<and> productId l = P) (carts db) = Some cartItem"
  shows "users db' = users db \<and> products db' = products db \<and> cart_seq db' = cart_seq db \<and>
         (\<exists>n. carts db' = map (\<lambda>l. if l = cartItem then l\<lparr>count := n\<rparr> else l) (carts db) \<and>
              JNum n = js_add (count cartItem) (case body_count req of JUndefined \<Rightarrow> JNum 1 | v \<Rightarrow> v)) \<and>
         (\<exists>prd. prd \<in> set (products db) \<and> product_id prd = P \<and>
              b = AddedJson ''Product added to cart'' prd)"
proof -
  obtain h where h: "headers_authorization req = Some h" "h \<noteq> []"
    "jwt_verify verify (second (split CHR '' '' h)) = Some U"
    using resolved_userD [OF ru] by blast
  have ci: "cartItem \<in> set (carts db)"
    using find_Some_D [OF ex] by simp
  have same: "(\<lambda>l. if cart_id l = cart_id cartItem then l\<lparr>count := n\<rparr> else l) x =
              (\<lambda>l. if l = cartItem then l\<lparr>count := n\<rparr> else l) x"
    if "x \<in> set (carts db)" for x n
    using pk ci that by (auto simp: distinct_map dest: inj_onD)
  have m: "map (\<lambda>l. if cart_id l = cart_id cartItem then l\<lparr>count := n\<rparr> else l) (carts db) =
           map (\<lambda>l. if l = cartItem then l\<lparr>count := n\<rparr> else l) (carts db)" for n
    using same by (intro map_cong) auto
  have P0: "P \<noteq> 0"
    using ok by (auto simp: addToCart_def Let_def pid)
  obtain usr where usr: "find (\<lambda>u. user_id u = U) (users db) = Some usr"
    using ok P0 by (cases "find (\<lambda>u. user_id u = U) (users db)")
      (auto simp: addToCart_def Let_def pid h user_findUnique_def)
  have uu: "user_id usr = U"
    using find_Some_D [OF usr] by simp
  have rg: "int32 P"
    using ok P0 by (cases "int32 P")
      (auto simp: addToCart_def Let_def pid h usr user_findUnique_def product_findUnique_def)
  obtain prd where prd: "find (\<lambda>p. product_id p = P) (products db) = Some prd"
    using ok P0 rg by (cases "find (\<lambda>p. product_id p = P) (products db)")
      (auto simp: addToCart_def Let_def pid h usr user_findUnique_def product_findUnique_def)
  have pp: "product_id prd = P" "prd \<in> set (products db)"
    using find_Some_D [OF prd] by simp_all
  let ?cnt = "case body_count req of JUndefined \<Rightarrow> JNum 1 | v \<Rightarrow> v"
  have run: "addToCart verify req db =
      (case cart_update (carts db) (cart_id cartItem) (js_add (count cartItem) ?cnt) of
         Inl e \<Rightarrow> (Response 500 (ErrorJson ''Failed to add product to cart''), db)
       | Inr cs \<Rightarrow> (Response 200 (AddedJson ''Product added to cart'' prd), db\<lparr>carts := cs\<rparr>))"
    using P0 rg
    by (simp add: addToCart_def Let_def pid h usr uu prd pp ex user_findUnique_def
        product_findUnique_def cart_findFirst_JNum)
  obtain cs where cs: "cart_update (carts db) (cart_id cartItem) (js_add (count cartItem) ?cnt) = Inr cs"
    using ok unfolding run
    by (cases "cart_update (carts db) (cart_id cartItem) (js_add (count cartItem) ?cnt)") auto
  obtain n where n: "js_add (count cartItem) ?cnt = JNum n"
      "cs = map (\<lambda>l. if cart_id l = cart_id cartItem then l\<lparr>count := n\<rparr> else l) (carts db)"
    using cart_update_Inr [OF cs] by blast
  have res: "b = AddedJson ''Product added to cart'' prd" "db' = db\<lparr>carts := cs\<rparr>"
    using ok unfolding run cs by simp_all
  have "carts db' = map (\<lambda>l. if l = cartItem then l\<lparr>count := n\<rparr> else l) (carts db)"
    using res n m by simp
  then show ?thesis
    using res n pp by auto
qed

text \<open>User 1 of \<open>shop\<close> adds 4 of product 8, of which the cart has 1: only that count changes.\<close>

theorem addToCart_existing_line_frame_witness:
  "addToCart tokens (add_request (JNum 8) (JNum 4)) shop =
     (Response 200 (AddedJson ''Product added to cart'' (item 8 2 35)),
      shop\<lparr>carts := [\<lparr>cart_id = 1, userId = 2, productId = 7, count = 4\<rparr>,
                      \<lparr>cart_id = 2, userId = 1, productId = 8, count = 5\<rparr>]\<rparr>)"
proof -
  let ?req = "add_request (JNum 8) (JNum 4)"
  let ?line = "\<lparr>cart_id = 2, userId = 1, productId = 8, count = 1\<rparr>"
  obtain b db' where ok: "addToCart tokens ?req shop = (Response 200 b, db')"
    by (simp add: addToCart_def shop_simps user_findUnique_def product_findUnique_def
        cart_findFirst_def cart_update_def int32_def js_number_small)
  have pk: "distinct (map cart_id (carts shop))"
    by (simp add: shop_def)
  have ru: "resolved_user tokens ?req = Some 1"
    by (simp add: shop_simps)
  have pid: "body_productId ?req = JNum 8"
    by (simp add: add_request_def)
  have ex: "find (\<lambda>l. userId l = 1 \<and> productId l = 8) (carts shop) = Some ?line"
    by (simp add: shop_def)
  have cn: "body_count ?req = JNum 4"
    by (simp add: add_request_def)
  from addToCart_existing_line_frame [OF pk ok ru pid ex]
  obtain n prd where f: "users db' = users shop" "products db' = products shop"
      "cart_seq db' = cart_seq shop"
      "carts db' = map (\<lambda>l. if l = ?line then l\<lparr>count := n\<rparr> else l) (carts shop)"
      "JNum n = js_add (count ?line) (JNum 4)"
      "prd \<in> set (products shop)" "product_id prd = 8" "b = AddedJson ''Product added to cart'' prd"
    unfolding cn by auto
  have n: "n = 5" using f(5) by (simp add: js_number_small)
  have p: "prd = item 8 2 35"
    using f(6,7) by (auto simp: shop_def item_def)
  have d: "db' = shop\<lparr>carts := carts db'\<rparr>"
    using f(1,2,3) by (cases db', simp add: shop_def)
  have c: "carts db' = [\<lparr>cart_id = 1, userId = 2, productId = 7, count = 4\<rparr>,
                       \<lparr>cart_id = 2, userId = 1, productId = 8, count = 5\<rparr>]"
    unfolding f(4) n by (simp add: shop_def)
  have "db' = shop\<lparr>carts := [\<lparr>cart_id = 1, userId = 2, productId = 7, count = 4\<rparr>,
                               \<lparr>cart_id = 2, userId = 1, productId = 8, count = 5\<rparr>]\<rparr>"
    using d unfolding c .
  then show ?thesis
    unfolding ok f(8) p by simp
qed

section \<open>Refused cart-add requests\<close>




text \<open>
  Claim C9, as the code has it.  When the token verifies and its \<open>userid\<close>
  is no stored user, the call answers 401 \<open>Unauthorized: Invalid user\<close>
  and leaves the store as it was, provided the request has a \<open>productId\<close>;
  without one the controller has answered 400 before it looks at the token,
  the store unchanged as well.
\<close>

theorem addToCart_unknown_user:
  assumes ru: "resolved_user verify req = Some U"
    and nu: "U \<notin> user_id ` set (users db)"
  shows "addToCart verify req db =
           (if truthy (body_productId req)
            then Response 401 (ErrorJson ''Unauthorized: Invalid user'')
            else Response 400 (ErrorJson ''Product ID is required''), db)"
proof -
  obtain h where h: "headers_authorization req = Some h" "h \<noteq> []"
    "jwt_verify verify (second (split CHR '' '' h)) = Some U"
    using resolved_userD [OF ru] by blast
  have none: "find (\<lambda>u. user_id u = U) (users db) = None"
    using nu by (auto simp: find_None_iff)
  show ?thesis
    by (simp add: addToCart_def Let_def h none user_findUnique_def)
qed

text \<open>The token of user 99, who is not in \<open>shop\<close>, with product 7.\<close>

theorem addToCart_unknown_user_witness:
  "addToCart tokens ((add_request (JNum 7) (JNum 1))\<lparr>headers_authorization := Some ''Bearer tok99''\<rparr>) shop =
     (Response 401 (ErrorJson ''Unauthorized: Invalid user''), shop)"
proof -
  let ?req = "(add_request (JNum 7) (JNum 1))\<lparr>headers_authorization := Some ''Bearer tok99''\<rparr>"
  have ru: "resolved_user tokens ?req = Some 99"
    by (simp add: shop_simps)
  have nu: "99 \<notin> user_id ` set (users shop)"
    by (simp add: shop_def)
  from addToCart_unknown_user [OF ru nu] show ?thesis
    by (simp add: add_request_def)
qed

text \<open>
  Claim C9 as stated fails for a request without \<open>productId\<close>: the token of
  user 99 verifies, user 99 is not stored, and the answer is 400.
\<close>

theorem addToCart_no_product_unknown_user_counterexample:
  "resolved_user tokens ((add_request JUndefined JUndefined)\<lparr>headers_authorization := Some ''Bearer tok99''\<rparr>) = Some 99 \<and>
   99 \<notin> user_id ` set (users shop) \<and>
   addToCart tokens ((add_request JUndefined JUndefined)\<lparr>headers_authorization := Some ''Bearer tok99''\<rparr>) shop =
     (Response 400 (ErrorJson ''Product ID is required''), shop)"
  by (simp add: addToCart_def shop_simps)

text \<open>The controller on its own changes nothing either when the credential does not verify.\<close>

lemma addToCart_unverified:
  assumes "auth verify (headers_authorization req) = Inl e"
  shows "snd (addToCart verify req db) = db"
  using assms
  by (auto simp: addToCart_def Let_def auth_def split: option.splits)

lemma addToCart_no_header:
  assumes "headers_authorization req = None"
  shows "addToCart verify req db =
           (if truthy (body_productId req)
            then Response 401 (ErrorJson ''Unauthorized: No token provided'')
            else Response 400 (ErrorJson ''Product ID is required''), db)"
  using assms by (simp add: addToCart_def Let_def)

text \<open>
  Claim C8.  A request to \<open>/cart/add\<close> without an \<open>authorization\<close> header
  is answered 401 by the route and the store is unchanged.  The same holds
  whenever the credential check of the route fails; the controller behind
  it would not change the store either, and for a request without the
  header its own answer is 401, or 400 when the request has no
  \<open>productId\<close>, which it checks first.
\<close>

theorem cart_add_without_credential:
  "(headers_authorization req = None \<longrightarrow>
      cart_add_route verify req db = (Response 401 (ErrorJson ''Unauthorized''), db)) \<and>
   (auth verify (headers_authorization req) = Inl Unauthorized \<longrightarrow>
      cart_add_route verify req db = (Response 401 (ErrorJson ''Unauthorized''), db) \<and>
      snd (addToCart verify req db) = db) \<and>
   (headers_authorization req = None \<longrightarrow>
      addToCart verify req db =
        (if truthy (body_productId req)
         then Response 401 (ErrorJson ''Unauthorized: No token provided'')
         else Response 400 (ErrorJson ''Product ID is required''), db))"
  using addToCart_unverified [of verify req Unauthorized db] addToCart_no_header [of req verify db]
  by (auto simp: cart_add_route_def auth_def)

text \<open>A request for product 7 without the header, on \<open>shop\<close>.\<close>

theorem cart_add_without_credential_witness:
  "cart_add_route tokens ((add_request (JNum 7) (JNum 1))\<lparr>headers_authorization := None\<rparr>) shop =
     (Response 401 (ErrorJson ''Unauthorized''), shop) \<and>
   addToCart tokens ((add_request (JNum 7) (JNum 1))\<lparr>headers_authorization := None\<rparr>) shop =
     (Response 401 (ErrorJson ''Unauthorized: No token provided''), shop)"
proof -
  let ?req = "(add_request (JNum 7) (JNum 1))\<lparr>headers_authorization := None\<rparr>"
  have h: "headers_authorization ?req = None"
    by (simp add: add_request_def)
  have a: "auth tokens (headers_authorization ?req) = Inl Unauthorized"
    by (simp add: h auth_def)
  have p: "truthy (body_productId ?req)"
    by (simp add: add_request_def)
  from cart_add_without_credential [of ?req tokens shop] h a p show ?thesis
    by simp
qed

section \<open>Removing a cart line\<close>

text \<open>
  The route parameter is a string and the \<open>productId\<close> column holds
  numbers, so the lookup of \<open>deleteCart\<close> is refused by the client for
  every verified, stored user: the answer is 500 and nothing is deleted.
\<close>

lemma deleteCart_authenticated:
  assumes "params_itemId req = Some i" "i \<noteq> []"
    and "resolved_user verify req = Some U"
    and "U \<in> user_id ` set (users db)"
  shows "deleteCart verify req db = (Response 500 (ErrorJson ''Failed to remove item from cart''), db)"
proof -
  obtain h where h: "headers_authorization req = Some h" "h \<noteq> []"
    "jwt_verify verify (second (split CHR '' '' h)) = Some U"
    using resolved_userD [OF assms(3)] by blast
  obtain usr where usr: "find (\<lambda>u. user_id u = U) (users db) = Some usr"
    using find_by_key [OF assms(4)] by blast
  show ?thesis
    by (simp add: deleteCart_def Let_def assms(1,2) h usr user_findUnique_def cart_findFirst_def)
qed

text \<open>No call of \<open>deleteCart\<close> changes the store.\<close>

lemma deleteCart_store: "snd (deleteCart verify req db) = db"
  by (auto simp: deleteCart_def Let_def cart_findFirst_def split: option.splits sum.splits)

text \<open>With the parameter converted to a number, as the other controllers do, the line is found.\<close>

lemma cart_findFirst_converted:
  "cart_findFirst (carts shop) 1 (parseInt ''8'') =
     Inr (Some \<lparr>cart_id = 2, userId = 1, productId = 8, count = 1\<rparr>)"
  by (simp add: cart_findFirst_def shop_def parse_simps)

text \<open>
  Claim C3 fails on the code.  User 1 of \<open>shop\<close> has product 8 in the cart
  and sends \<open>DELETE /cart/delete/8\<close> with a valid token: the answer is
  500 and the line is still there.
\<close>

theorem deleteCart_route_parameter_refused:
  "deleteCart tokens delete_request shop =
     (Response 500 (ErrorJson ''Failed to remove item from cart''), shop)"
  by (simp add: deleteCart_def delete_request_def shop_def tokens_def jwt_verify_def
      user_findUnique_def cart_findFirst_def)

end
